theory Spec2Isabelle
  imports Complex_Main "HOL-Library.List_Lexorder" "HOL-Library.Char_ord"
    "HOL-Library.Product_Lexorder"
begin

unbundle bit_operations_syntax

section \<open>Decoded segments\<close>

text \<open>
  Every script decodes a captured frame with dpkt (or scapy) and then reads the same few
  header fields. A decoded frame is the record below: the capture timestamp, the two IP
  addresses as strings, and the TCP header fields. \<open>tcp_data_len\<close> is \<open>len(tcp.data)\<close>,
  \<open>buf_len\<close> is \<open>len(buf)\<close>. Python floats are modelled as reals, Python ints as
  naturals (no header field is negative and Python ints do not wrap).
\<close>

record packet =
  pkt_ts :: real
  ip_src :: string
  ip_dst :: string
  tcp_sport :: nat
  tcp_dport :: nat
  tcp_seq :: nat
  tcp_ack :: nat
  tcp_flags :: nat
  tcp_win :: nat
  tcp_data_len :: nat
  buf_len :: nat

text \<open>The flag bits (\<open>dpkt.tcp.TH_*\<close>, and the \<open>TCP_FLAGS\<close> table of pcap\_analyzer\_v10.py).\<close>

definition TH_FIN :: nat where "TH_FIN = 1"
definition TH_SYN :: nat where "TH_SYN = 2"
definition TH_RST :: nat where "TH_RST = 4"
definition TH_ACK :: nat where "TH_ACK = 16"

text \<open>Python truthiness of \<open>flags & bit\<close>.\<close>

definition has_flag :: "nat \<Rightarrow> nat \<Rightarrow> bool" where
  "has_flag fl b = (fl AND b \<noteq> 0)"

type_synonym flow_key = "string \<times> nat \<times> string \<times> nat"

section \<open>pcap\_analyzer\_v4.py\<close>

record FlowMetrics_v4 =
  v4_src :: string
  v4_sport :: nat
  v4_dst :: string
  v4_dport :: nat
  v4_packet_count :: nat
  v4_byte_count :: nat
  v4_syn_count :: nat
  v4_syn_ack_count :: nat
  v4_fin_count :: nat
  v4_rst_count :: nat
  v4_unacked_packets :: "nat \<rightharpoonup> real"
  v4_rtt_samples :: "real list"
  v4_last_packet_ts :: real
  v4_jitter_samples :: "real list"
  v4_retransmissions :: nat
  v4_out_of_order :: nat
  v4_zero_window_count :: nat
  v4_seen_seqs :: "nat set"
  v4_max_seq :: nat

definition new_FlowMetrics_v4 :: "string \<Rightarrow> nat \<Rightarrow> string \<Rightarrow> nat \<Rightarrow> FlowMetrics_v4" where
  "new_FlowMetrics_v4 s sp d dp =
     \<lparr> v4_src = s, v4_sport = sp, v4_dst = d, v4_dport = dp,
       v4_packet_count = 0, v4_byte_count = 0,
       v4_syn_count = 0, v4_syn_ack_count = 0, v4_fin_count = 0, v4_rst_count = 0,
       v4_unacked_packets = Map.empty, v4_rtt_samples = [],
       v4_last_packet_ts = 0, v4_jitter_samples = [],
       v4_retransmissions = 0, v4_out_of_order = 0, v4_zero_window_count = 0,
       v4_seen_seqs = {}, v4_max_seq = 0 \<rparr>"

record GlobalState =
  gs_start_ts :: real
  gs_end_ts :: real
  gs_total_packets :: nat
  gs_flows :: "flow_key \<rightharpoonup> FlowMetrics_v4"

definition new_GlobalState :: GlobalState where
  "new_GlobalState =
     \<lparr> gs_start_ts = 0, gs_end_ts = 0, gs_total_packets = 0, gs_flows = Map.empty \<rparr>"

text \<open>\<open>BasicStatsAnalyzer.process\<close>\<close>

definition BasicStatsAnalyzer_process ::
  "FlowMetrics_v4 \<Rightarrow> nat \<Rightarrow> nat \<Rightarrow> real \<Rightarrow> FlowMetrics_v4" where
  "BasicStatsAnalyzer_process flow fl pkt_len t =
     (let f1 = flow\<lparr> v4_packet_count := v4_packet_count flow + 1,
                      v4_byte_count := v4_byte_count flow + pkt_len \<rparr>;
          f2 = (if has_flag fl TH_SYN then
                  (if has_flag fl TH_ACK
                   then f1\<lparr> v4_syn_ack_count := v4_syn_ack_count f1 + 1 \<rparr>
                   else f1\<lparr> v4_syn_count := v4_syn_count f1 + 1 \<rparr>)
                else f1);
          f3 = (if has_flag fl TH_FIN then f2\<lparr> v4_fin_count := v4_fin_count f2 + 1 \<rparr> else f2)
      in (if has_flag fl TH_RST then f3\<lparr> v4_rst_count := v4_rst_count f3 + 1 \<rparr> else f3))"

text \<open>
  \<open>RTTAnalyzer.process\<close>: a data segment registers the acknowledgment number it expects,
  unless its start sequence number was seen before; then the inter-arrival sample.
\<close>

definition RTTAnalyzer_process :: "FlowMetrics_v4 \<Rightarrow> packet \<Rightarrow> real \<Rightarrow> FlowMetrics_v4" where
  "RTTAnalyzer_process flow tcp t =
     (let f1 = (if tcp_data_len tcp > 0 then
                  (let expected_ack = tcp_seq tcp + tcp_data_len tcp in
                   if tcp_seq tcp \<notin> v4_seen_seqs flow
                   then flow\<lparr> v4_unacked_packets := (v4_unacked_packets flow)(expected_ack \<mapsto> t) \<rparr>
                   else flow)
                else flow);
          f2 = (if v4_last_packet_ts f1 > 0 then
                  (let delta = t - v4_last_packet_ts f1 in
                   if delta < 1 then f1\<lparr> v4_jitter_samples := v4_jitter_samples f1 @ [delta] \<rparr>
                   else f1)
                else f1)
      in f2\<lparr> v4_last_packet_ts := t \<rparr>)"

text \<open>\<open>AnomalyDetector.process\<close>\<close>

definition AnomalyDetector_process :: "FlowMetrics_v4 \<Rightarrow> packet \<Rightarrow> FlowMetrics_v4" where
  "AnomalyDetector_process flow tcp =
     (let sq = tcp_seq tcp;
          f1 = (if tcp_win tcp = 0 \<and> \<not> has_flag (tcp_flags tcp) TH_RST
                then flow\<lparr> v4_zero_window_count := v4_zero_window_count flow + 1 \<rparr>
                else flow)
      in if tcp_data_len tcp > 0 then
           (let f2 = (if sq \<in> v4_seen_seqs f1
                      then f1\<lparr> v4_retransmissions := v4_retransmissions f1 + 1 \<rparr>
                      else f1\<lparr> v4_seen_seqs := insert sq (v4_seen_seqs f1) \<rparr>);
                f3 = (if sq < v4_max_seq f2 \<and> sq \<notin> v4_seen_seqs f2
                      then f2\<lparr> v4_out_of_order := v4_out_of_order f2 + 1 \<rparr>
                      else f2)
            in if sq > v4_max_seq f3 then f3\<lparr> v4_max_seq := sq \<rparr> else f3)
         else f1)"

text \<open>
  The flows live in a dictionary and are mutated through references; \<open>flow\<close> and
  \<open>rev_flow\<close> are the same object when the two endpoints are equal. Every mutation is
  therefore an update of the dictionary at the object's key.
\<close>

text \<open>\<open>if k not in m: m[k] = d\<close>\<close>

definition setdefault :: "('k \<rightharpoonup> 'v) \<Rightarrow> 'k \<Rightarrow> 'v \<Rightarrow> ('k \<rightharpoonup> 'v)" where
  "setdefault m k d = (if m k = None then m(k \<mapsto> d) else m)"

definition upd_flow ::
  "('k \<rightharpoonup> 'v) \<Rightarrow> 'k \<Rightarrow> ('v \<Rightarrow> 'v) \<Rightarrow> ('k \<rightharpoonup> 'v)" where
  "upd_flow m k f = (case m k of None \<Rightarrow> m | Some v \<Rightarrow> m(k \<mapsto> f v))"

text \<open>The cross-flow step of \<open>StreamAnalyzer.process_packet\<close> (part 2.A), on the reverse flow.\<close>

definition v4_ack_match :: "FlowMetrics_v4 \<Rightarrow> packet \<Rightarrow> real \<Rightarrow> FlowMetrics_v4" where
  "v4_ack_match rev_flow tcp t =
     (if has_flag (tcp_flags tcp) TH_ACK then
        (case v4_unacked_packets rev_flow (tcp_ack tcp) of
           None \<Rightarrow> rev_flow
         | Some sent_ts \<Rightarrow>
            (let r1 = rev_flow\<lparr> v4_unacked_packets :=
                                   (v4_unacked_packets rev_flow)(tcp_ack tcp := None) \<rparr>;
                 rtt = t - sent_ts
             in if 0 < rtt \<and> rtt < 5 then r1\<lparr> v4_rtt_samples := v4_rtt_samples r1 @ [rtt] \<rparr>
                else r1))
      else rev_flow)"

text \<open>\<open>StreamAnalyzer.process_packet\<close>, from the decoded frame on.\<close>

definition process_packet :: "GlobalState \<Rightarrow> packet \<Rightarrow> GlobalState" where
  "process_packet state p =
     (let flow_key = (ip_src p, tcp_sport p, ip_dst p, tcp_dport p);
          rev_flow_key = (ip_dst p, tcp_dport p, ip_src p, tcp_sport p);
          m0 = gs_flows state;
          m1 = setdefault m0 flow_key
                 (new_FlowMetrics_v4 (ip_src p) (tcp_sport p) (ip_dst p) (tcp_dport p));
          m2 = setdefault m1 rev_flow_key
                 (new_FlowMetrics_v4 (ip_dst p) (tcp_dport p) (ip_src p) (tcp_sport p));
          m3 = upd_flow m2 flow_key (\<lambda>f. BasicStatsAnalyzer_process f (tcp_flags p) (buf_len p) (pkt_ts p));
          m4 = upd_flow m3 rev_flow_key (\<lambda>f. v4_ack_match f p (pkt_ts p));
          m5 = upd_flow m4 flow_key (\<lambda>f. RTTAnalyzer_process f p (pkt_ts p));
          m6 = upd_flow m5 flow_key (\<lambda>f. AnomalyDetector_process f p)
      in state\<lparr> gs_flows := m6,
                 gs_total_packets := gs_total_packets state + 1,
                 gs_start_ts := (if gs_start_ts state = 0 then pkt_ts p else gs_start_ts state),
                 gs_end_ts := pkt_ts p \<rparr>)"

text \<open>The main loop: every frame of the capture, in order.\<close>

definition run_v4 :: "packet list \<Rightarrow> GlobalState" where
  "run_v4 ps = foldl process_packet new_GlobalState ps"

section \<open>analyze\_and\_generate\_report.py\<close>

definition RTT_JITTER_THRESH :: real where "RTT_JITTER_THRESH = 0.05"
definition MIN_RTT_SAMPLES :: nat where "MIN_RTT_SAMPLES = 3"
definition RTO_HEURISTIC_THRESH :: real where "RTO_HEURISTIC_THRESH = 1.0"

record FlowMetrics =
  fm_count :: nat
  fm_payload_bytes :: nat
  fm_retrans :: nat
  fm_rto_cnt :: nat
  fm_cont_retrans :: nat
  fm_small_win_cnt :: nat
  fm_wins :: "nat list"
  fm_timestamps :: "real list"
  fm_rtt_samples :: "real list"
  fm_win_ts :: "(real \<times> nat) list"
  fm_seen_seqs :: "nat set"
  fm_last_seq :: "nat option"
  fm_max_seq :: nat

definition new_FlowMetrics :: FlowMetrics where
  "new_FlowMetrics =
     \<lparr> fm_count = 0, fm_payload_bytes = 0, fm_retrans = 0, fm_rto_cnt = 0,
       fm_cont_retrans = 0, fm_small_win_cnt = 0,
       fm_wins = [], fm_timestamps = [], fm_rtt_samples = [], fm_win_ts = [],
       fm_seen_seqs = {}, fm_last_seq = None, fm_max_seq = 0 \<rparr>"

text \<open>
  The two \<open>defaultdict\<close>s of \<open>analyze_pcap\<close>: the flows by directional 4-tuple, and for
  each sender the expected acknowledgment numbers with the time the data was sent.
\<close>

record analysis =
  flows :: "flow_key \<rightharpoonup> FlowMetrics"
  unacked_packets :: "flow_key \<rightharpoonup> (nat \<rightharpoonup> real)"
  packet_count :: nat

definition new_analysis :: analysis where
  "new_analysis = \<lparr> flows = Map.empty, unacked_packets = Map.empty, packet_count = 0 \<rparr>"

text \<open>Reading a \<open>defaultdict\<close> at a key (the entry is created when missing), and \<open>dict.get\<close>.\<close>

definition dd_get :: "('k \<rightharpoonup> 'v) \<Rightarrow> 'v \<Rightarrow> 'k \<Rightarrow> 'v" where
  "dd_get m d k = (case m k of None \<Rightarrow> d | Some v \<Rightarrow> v)"

text \<open>Part 2 of the loop body (retransmission and RTO detection), on the flow of the segment.\<close>

definition retrans_detect :: "FlowMetrics \<Rightarrow> packet \<Rightarrow> FlowMetrics" where
  "retrans_detect fm p =
     (let sq = tcp_seq p; t = pkt_ts p in
      if tcp_data_len p > 0 then
        (let f1 =
           (if tcp_data_len p \<le> 1 \<and> has_flag (tcp_flags p) TH_ACK then fm
            else if sq \<in> fm_seen_seqs fm then
              (let a = fm\<lparr> fm_retrans := fm_retrans fm + 1 \<rparr>;
                   b = (if fm_last_seq a = Some sq
                        then a\<lparr> fm_cont_retrans := fm_cont_retrans a + 1 \<rparr> else a)
               in if length (fm_timestamps b) > 1 then
                    (let dt = t - fm_timestamps b ! (length (fm_timestamps b) - 2) in
                     if dt > RTO_HEURISTIC_THRESH
                     then b\<lparr> fm_rto_cnt := fm_rto_cnt b + 1 \<rparr> else b)
                  else b)
            else fm)
         in f1\<lparr> fm_seen_seqs := insert sq (fm_seen_seqs f1),
                 fm_last_seq := Some sq,
                 fm_max_seq := max (fm_max_seq f1) sq \<rparr>)
      else fm)"

text \<open>Part 3 (window analysis).\<close>

definition small_win :: "FlowMetrics \<Rightarrow> packet \<Rightarrow> FlowMetrics" where
  "small_win fm p =
     (if tcp_win p < 200 \<and> \<not> has_flag (tcp_flags p) TH_SYN \<and> \<not> has_flag (tcp_flags p) TH_RST
      then fm\<lparr> fm_small_win_cnt := fm_small_win_cnt fm + 1 \<rparr> else fm)"

text \<open>
  The start of the loop body: \<open>fm = flows[flow_key]\<close> creates the flow when it is new,
  then the counters and samples of the segment.
\<close>

definition count_packet :: "FlowMetrics \<Rightarrow> packet \<Rightarrow> FlowMetrics" where
  "count_packet fm p =
     fm\<lparr> fm_count := fm_count fm + 1,
          fm_timestamps := fm_timestamps fm @ [pkt_ts p],
          fm_wins := fm_wins fm @ [tcp_win p],
          fm_win_ts := fm_win_ts fm @ [(pkt_ts p, tcp_win p)],
          fm_payload_bytes := fm_payload_bytes fm + tcp_data_len p \<rparr>"

text \<open>
  Part 1, first half: an ACK that matches a pending entry of the reverse flow pops that
  entry and, when the delay is between 0 and 10 seconds, adds it to the RTT samples of the
  reverse flow (\<open>flows[rev_flow_key]\<close> creates that flow when it is new).
\<close>

definition rtt_match :: "analysis \<Rightarrow> packet \<Rightarrow> analysis" where
  "rtt_match st p =
     (let rev_flow_key = (ip_dst p, tcp_dport p, ip_src p, tcp_sport p);
          pending = dd_get (unacked_packets st) Map.empty rev_flow_key
      in if has_flag (tcp_flags p) TH_ACK then
           (case pending (tcp_ack p) of
              None \<Rightarrow> st
            | Some sent_ts \<Rightarrow>
               (let st1 = st\<lparr> unacked_packets :=
                               (unacked_packets st)(rev_flow_key \<mapsto> pending(tcp_ack p := None)) \<rparr>;
                    rtt = pkt_ts p - sent_ts
                in if 0 < rtt \<and> rtt < 10 then
                     (let rf = dd_get (flows st1) new_FlowMetrics rev_flow_key in
                      st1\<lparr> flows := (flows st1)
                              (rev_flow_key \<mapsto> rf\<lparr> fm_rtt_samples := fm_rtt_samples rf @ [rtt] \<rparr>) \<rparr>)
                   else st1))
         else st)"

text \<open>Part 1, second half: a segment with data registers the ACK it expects.\<close>

definition rtt_expect :: "analysis \<Rightarrow> packet \<Rightarrow> analysis" where
  "rtt_expect st p =
     (let flow_key = (ip_src p, tcp_sport p, ip_dst p, tcp_dport p) in
      if tcp_data_len p > 0 then
        st\<lparr> unacked_packets := (unacked_packets st)
               (flow_key \<mapsto> (dd_get (unacked_packets st) Map.empty flow_key)
                                (tcp_seq p + tcp_data_len p \<mapsto> pkt_ts p)) \<rparr>
      else st)"

text \<open>
  The body of the loop of \<open>analyze_pcap\<close> for one decoded TCP segment. Nothing in it
  raises, so the \<open>except: continue\<close> around it is never taken after decoding.
\<close>

definition analyze_step :: "analysis \<Rightarrow> packet \<Rightarrow> analysis" where
  "analyze_step st p =
     (let flow_key = (ip_src p, tcp_sport p, ip_dst p, tcp_dport p);
          st1 = st\<lparr> packet_count := packet_count st + 1,
                     flows := (flows st)
                       (flow_key \<mapsto> count_packet (dd_get (flows st) new_FlowMetrics flow_key) p) \<rparr>;
          st2 = rtt_expect (rtt_match st1 p) p
      in st2\<lparr> flows := upd_flow (flows st2) flow_key (\<lambda>fm. small_win (retrans_detect fm p) p) \<rparr>)"

definition analyze_pcap :: "packet list \<Rightarrow> analysis" where
  "analyze_pcap ps = foldl analyze_step new_analysis ps"

subsection \<open>\<open>calculate_probabilities\<close>\<close>

datatype py_error = ZeroDivisionError | ValueError

text \<open>
  \<open>np.mean\<close>, \<open>np.std\<close> (population standard deviation) and \<open>np.max\<close>. On an empty list
  the first two give nan and \<open>np.max\<close> raises; every call below is guarded by a test
  that the list is not empty, and \<open>np_max\<close> says what happens otherwise.
\<close>

definition np_mean :: "real list \<Rightarrow> real" where
  "np_mean xs = sum_list xs / real (length xs)"

definition np_std :: "real list \<Rightarrow> real" where
  "np_std xs = sqrt (sum_list (map (\<lambda>x. (x - np_mean xs)\<^sup>2) xs) / real (length xs))"

definition np_max :: "real list \<Rightarrow> py_error + real" where
  "np_max xs = (case xs of [] \<Rightarrow> Inl ValueError | x # r \<Rightarrow> Inr (fold max r x))"

record probabilities =
  p_c :: real
  p_n :: real
  p_s :: real
  r_rtt_avg :: real
  r_rtt_max :: real
  r_rtt_std :: real
  r_avg_win :: real

text \<open>Lines 216 to 221: the RTT statistics, 0.0 below the minimum number of samples.\<close>

definition rtt_stats :: "FlowMetrics \<Rightarrow> py_error + (real \<times> real \<times> real)" where
  "rtt_stats fm =
     (if length (fm_rtt_samples fm) \<ge> MIN_RTT_SAMPLES
      then (case np_max (fm_rtt_samples fm) of
              Inl e \<Rightarrow> Inl e
            | Inr mx \<Rightarrow> Inr (np_mean (fm_rtt_samples fm), mx, np_std (fm_rtt_samples fm)))
      else Inr (0, 0, 0))"

text \<open>
  Lines 224 to 245: the three scores before normalisation. \<open>fm.retrans / fm.count\<close>
  raises when the count is 0.
\<close>

definition raw_scores :: "FlowMetrics \<Rightarrow> real \<Rightarrow> real \<Rightarrow> py_error + (real \<times> real \<times> real)" where
  "raw_scores fm avg_win rtt_std =
     (let (sc1, ss1) = (if avg_win < 500 \<and> fm_count fm > 10 then (0.2, 0.6) else (0, 0)) in
      case (if fm_retrans fm > 0 then
              (if fm_count fm = 0 then Inl ZeroDivisionError
               else (let ratio = real (fm_retrans fm) / real (fm_count fm)
                     in Inr (ratio * 10, ss1 + ratio * 2)))
            else Inr (0, ss1)) of
        Inl e \<Rightarrow> Inl e
      | Inr (sn2, ss2) \<Rightarrow>
         (let sn3 = (if fm_rto_cnt fm > 0 then sn2 + real (fm_rto_cnt fm) * 0.5 else sn2);
              sn4 = (if rtt_std > RTT_JITTER_THRESH then sn3 + 1 else sn3)
          in Inr (sc1, sn4, ss2)))"

definition calculate_probabilities :: "FlowMetrics \<Rightarrow> py_error + probabilities" where
  "calculate_probabilities fm =
     (let avg_win = (if fm_wins fm \<noteq> [] then np_mean (map real (fm_wins fm)) else 0) in
      case rtt_stats fm of
        Inl e \<Rightarrow> Inl e
      | Inr (rtt_avg, rtt_max, rtt_std) \<Rightarrow>
         (case raw_scores fm avg_win rtt_std of
            Inl e \<Rightarrow> Inl e
          | Inr (score_client, score_network, score_server) \<Rightarrow>
             (let total = score_client + score_network + score_server
              in if total < 0.001 then
                   Inr \<lparr> p_c = 0.33, p_n = 0.33, p_s = 0.34,
                         r_rtt_avg = rtt_avg, r_rtt_max = rtt_max, r_rtt_std = rtt_std,
                         r_avg_win = avg_win \<rparr>
                 else
                   Inr \<lparr> p_c = score_client / total, p_n = score_network / total,
                         p_s = score_server / total,
                         r_rtt_avg = rtt_avg, r_rtt_max = rtt_max, r_rtt_std = rtt_std,
                         r_avg_win = avg_win \<rparr>)))"

subsection \<open>The session count of \<open>main\<close>\<close>

definition session_key :: "flow_key \<Rightarrow> flow_key" where
  "session_key k =
     (case k of (src_ip, sport, dst_ip, dport) \<Rightarrow>
        (let key_tuple_1 = (src_ip, sport); key_tuple_2 = (dst_ip, dport) in
         if key_tuple_1 < key_tuple_2 then (src_ip, sport, dst_ip, dport)
         else (dst_ip, dport, src_ip, sport)))"

definition unique_sessions :: "flow_key set \<Rightarrow> flow_key set" where
  "unique_sessions ks = session_key ` ks"

definition total_tcp_sessions :: "flow_key set \<Rightarrow> nat" where
  "total_tcp_sessions ks = card (unique_sessions ks)"

subsection \<open>The per-IP aggregation of \<open>generate_plot\<close>\<close>

record flow_row =
  row_src_ip :: string
  row_dst_ip :: string
  row_p_client :: real
  row_p_network :: real
  row_p_server :: real
  row_score :: real

record ip_stat =
  st_c :: real
  st_n :: real
  st_s :: real
  st_count :: nat

text \<open>
  A \<open>defaultdict\<close> whose iteration order matters: an association list in insertion
  order. \<open>dd_update k d f\<close> is \<open>m[k] = f(m[k])\<close> with default \<open>d\<close>.
\<close>

fun dd_update :: "'k \<Rightarrow> 'v \<Rightarrow> ('v \<Rightarrow> 'v) \<Rightarrow> ('k \<times> 'v) list \<Rightarrow> ('k \<times> 'v) list" where
  "dd_update k d f [] = [(k, f d)]"
| "dd_update k d f ((k', v) # r) =
     (if k = k' then (k', f v) # r else (k', v) # dd_update k d f r)"

definition ip_stats_add :: "(string \<times> ip_stat) list \<Rightarrow> flow_row \<Rightarrow> (string \<times> ip_stat) list" where
  "ip_stats_add ip_stats row =
     dd_update (row_src_ip row) \<lparr> st_c = 0, st_n = 0, st_s = 0, st_count = 0 \<rparr>
       (\<lambda>e. \<lparr> st_c = st_c e + row_p_client row, st_n = st_n e + row_p_network row,
              st_s = st_s e + row_p_server row, st_count = st_count e + 1 \<rparr>)
       ip_stats"

text \<open>Lines 326 to 332: a fresh dictionary at every call, then one pass over the rows.\<close>

definition ip_stats_of :: "flow_row list \<Rightarrow> (string \<times> ip_stat) list" where
  "ip_stats_of flow_rows = foldl ip_stats_add [] flow_rows"

text \<open>
  Lines 335 to 344: the twelve addresses with the most flows (Python's sort is stable, also
  with \<open>reverse=True\<close>), and the three averages of each.
\<close>

definition sorted_ips :: "(string \<times> ip_stat) list \<Rightarrow> (string \<times> ip_stat) list" where
  "sorted_ips ip_stats = take 12 (sort_key (\<lambda>x. - int (st_count (snd x))) ip_stats)"

definition ip_aggregate :: "flow_row list \<Rightarrow> (string \<times> real \<times> real \<times> real) list" where
  "ip_aggregate flow_rows =
     map (\<lambda>x. (fst x, st_c (snd x) / real (st_count (snd x)),
                      st_n (snd x) / real (st_count (snd x)),
                      st_s (snd x) / real (st_count (snd x))))
       (sorted_ips (ip_stats_of flow_rows))"

text \<open>
  The same block as statements over the variable it assigns. \<open>ip_stats\<close> is a local
  variable of \<open>generate_plot\<close>; the environment lets it hold anything before the block
  runs, so that a fresh start is not assumed. Line 326 binds it to a fresh dictionary, and
  the loop of lines 327 to 332 adds the rows to what the variable then holds.
\<close>

record plot_env =
  env_ip_stats :: "(string \<times> ip_stat) list"

definition reset_ip_stats :: "plot_env \<Rightarrow> plot_env" where
  "reset_ip_stats env = env\<lparr> env_ip_stats := [] \<rparr>"

definition fill_ip_stats :: "plot_env \<Rightarrow> flow_row list \<Rightarrow> plot_env" where
  "fill_ip_stats env flow_rows = env\<lparr> env_ip_stats := foldl ip_stats_add (env_ip_stats env) flow_rows \<rparr>"

definition aggregate_env :: "plot_env \<Rightarrow> flow_row list \<Rightarrow> plot_env" where
  "aggregate_env env flow_rows = fill_ip_stats (reset_ip_stats env) flow_rows"

definition ip_bars :: "plot_env \<Rightarrow> (string \<times> real \<times> real \<times> real) list" where
  "ip_bars env =
     map (\<lambda>x. (fst x, st_c (snd x) / real (st_count (snd x)),
                      st_n (snd x) / real (st_count (snd x)),
                      st_s (snd x) / real (st_count (snd x))))
       (sorted_ips (env_ip_stats env))"

section \<open>tcp\_professional\_report.py\<close>

text \<open>
  The per-stream dictionary of \<open>main\<close>, with the entries \<open>compute_flow_metrics\<close> reads
  (\<open>seq_history\<close>, \<open>last_seq\<close> and \<open>last_ack_seen\<close> are only used while parsing).
\<close>

record stream_stats =
  ss_count :: nat
  ss_wins :: "nat list"
  ss_seq_ack_time :: "(real \<times> real) list"
  ss_retrans :: nat
  ss_rto :: nat
  ss_cont_retrans :: nat
  ss_psh_small :: nat

definition RTT_JITTER_THRESH_pro :: real where "RTT_JITTER_THRESH_pro = 0.03"

record flow_metrics =
  m_avg_win :: real
  m_rtt_avg :: real
  m_rtt_max :: real
  m_rtt_jitter :: real
  m_client :: real
  m_network :: real
  m_server :: real

text \<open>Lines 43 to 72: the weights and the three sums before normalisation.\<close>

definition raw_probs :: "stream_stats \<Rightarrow> real \<Rightarrow> real \<Rightarrow> real \<times> real \<times> real" where
  "raw_probs stats avg_win rtt_jitter =
     (let rto_w = 0.45; cont_retrans_w = 0.2; retrans_w = 0.15; win_w = 0.1; rtt_w = 0.1;
          (c1, n1, s1) = (if avg_win \<noteq> 0 \<and> avg_win < 200
                          then (win_w, win_w * 0.4, win_w * 0.2) else (0, 0, 0));
          n2 = n1 + real (ss_rto stats) * rto_w;
          c2 = c1 + real (ss_rto stats) * rto_w * 0.4;
          s2 = s1 + real (ss_rto stats) * rto_w * 0.2;
          n3 = n2 + real (ss_retrans stats) * retrans_w;
          c3 = c2 + real (ss_retrans stats) * retrans_w * 0.4;
          s3 = s2 + real (ss_retrans stats) * retrans_w * 0.2;
          n4 = n3 + real (ss_cont_retrans stats) * cont_retrans_w;
          c4 = c3 + real (ss_cont_retrans stats) * cont_retrans_w * 0.3;
          s4 = s3 + real (ss_cont_retrans stats) * cont_retrans_w * 0.1
      in if rtt_jitter > RTT_JITTER_THRESH_pro
         then (c4 + rtt_w * 0.4, n4 + rtt_w, s4 + rtt_w * 0.2)
         else (c4, n4, s4))"

definition compute_flow_metrics :: "stream_stats \<Rightarrow> py_error + flow_metrics" where
  "compute_flow_metrics stats =
     (let wins = ss_wins stats;
          seq_ack_time = ss_seq_ack_time stats;
          avg_win = (if wins \<noteq> [] then np_mean (map real wins) else 0);
          rtt_list = (if seq_ack_time \<noteq> [] then map (\<lambda>(t, ack_ts). ack_ts - t) seq_ack_time else []);
          rtt_avg = (if rtt_list \<noteq> [] then np_mean rtt_list else 0)
      in case (if rtt_list \<noteq> [] then np_max rtt_list else Inr 0) of
           Inl e \<Rightarrow> Inl e
         | Inr rtt_max \<Rightarrow>
            (let rtt_jitter = (if rtt_list \<noteq> [] then np_std rtt_list else 0);
                 (c, n, s) = raw_probs stats avg_win rtt_jitter;
                 total = c + n + s;
                 (prob_client, prob_network, prob_server) =
                    (if total > 0 then (c / total, n / total, s / total)
                     else (1 / 3, 1 / 3, 1 / 3))
             in Inr \<lparr> m_avg_win = avg_win, m_rtt_avg = rtt_avg, m_rtt_max = rtt_max,
                      m_rtt_jitter = rtt_jitter, m_client = prob_client,
                      m_network = prob_network, m_server = prob_server \<rparr>))"

section \<open>analyze\_tcp\_dpkt\_full\_trend.py: the per-IP sums\<close>

text \<open>
  \<open>flow_results\<close> maps a directional 4-tuple to the three probabilities of the flow (its
  other entries are not read by the aggregation). \<open>ip_src_stats\<close> and \<open>ip_dst_stats\<close>
  are created empty (lines 94 and 95) and filled by the loop of lines 136 to 140.
\<close>

type_synonym prob3 = "real \<times> real \<times> real"

definition add_prob :: "prob3 \<Rightarrow> prob3 \<Rightarrow> prob3" where
  "add_prob v e = (case e of (a, b, c) \<Rightarrow> (case v of (x, y, z) \<Rightarrow> (a + x, b + y, c + z)))"

definition ip_loop_step ::
  "(string \<times> prob3) list \<times> (string \<times> prob3) list \<Rightarrow> flow_key \<times> prob3 \<Rightarrow>
   (string \<times> prob3) list \<times> (string \<times> prob3) list" where
  "ip_loop_step st kv =
     (case st of (ip_src_stats, ip_dst_stats) \<Rightarrow>
      case kv of ((src_ip, sport, dst_ip, dport), v) \<Rightarrow>
        (dd_update src_ip (0, 0, 0) (add_prob v) ip_src_stats,
         dd_update dst_ip (0, 0, 0) (add_prob v) ip_dst_stats))"

definition ip_src_dst_stats ::
  "(flow_key \<times> prob3) list \<Rightarrow> (string \<times> prob3) list \<times> (string \<times> prob3) list" where
  "ip_src_dst_stats flow_results = foldl ip_loop_step ([], []) flow_results"

text \<open>
  The same as statements over the two module-level variables: lines 94 and 95 bind them to
  fresh dictionaries, the loop of lines 136 to 140 adds to what they hold.
\<close>

record trend_env =
  te_ip_src_stats :: "(string \<times> prob3) list"
  te_ip_dst_stats :: "(string \<times> prob3) list"

definition init_trend_stats :: "trend_env \<Rightarrow> trend_env" where
  "init_trend_stats env = env\<lparr> te_ip_src_stats := [], te_ip_dst_stats := [] \<rparr>"

definition trend_loop :: "trend_env \<Rightarrow> (flow_key \<times> prob3) list \<Rightarrow> trend_env" where
  "trend_loop env flow_results =
     (let r = foldl ip_loop_step (te_ip_src_stats env, te_ip_dst_stats env) flow_results
      in env\<lparr> te_ip_src_stats := fst r, te_ip_dst_stats := snd r \<rparr>)"

definition trend_run :: "trend_env \<Rightarrow> (flow_key \<times> prob3) list \<Rightarrow> trend_env" where
  "trend_run env flow_results = trend_loop (init_trend_stats env) flow_results"

section \<open>pcap\_analyzer.py: continuous RTT tracking\<close>

text \<open>
  The fields of \<open>TCPFlow\<close> that the continuous RTT tracking of \<open>_analyze_tcp\<close> (lines 272
  to 306) reads and writes; no other part of \<open>_analyze_tcp\<close> touches \<open>sent_seqs\<close>. The
  direction is the one \<open>_get_flow_key\<close> returns: 0 from the smaller endpoint. The RTT
  samples of this script are in milliseconds.
\<close>

record TCPFlow =
  tf_rtt_samples :: "real list"
  tf_sent_seqs :: "nat \<Rightarrow> (nat \<rightharpoonup> real)"

definition new_TCPFlow :: TCPFlow where
  "new_TCPFlow = \<lparr> tf_rtt_samples = [], tf_sent_seqs = (\<lambda>_. Map.empty) \<rparr>"

definition direction_v1 :: "packet \<Rightarrow> nat" where
  "direction_v1 p = (if (ip_src p, tcp_sport p) < (ip_dst p, tcp_dport p) then 0 else 1)"

definition add_rtt_sample :: "TCPFlow \<Rightarrow> real \<Rightarrow> TCPFlow" where
  "add_rtt_sample self rtt =
     (if rtt > 0 then self\<lparr> tf_rtt_samples := tf_rtt_samples self @ [rtt] \<rparr> else self)"

text \<open>Part A: the time of sent data, under the next expected sequence number.\<close>

definition store_sent :: "TCPFlow \<Rightarrow> nat \<Rightarrow> real \<Rightarrow> packet \<Rightarrow> TCPFlow" where
  "store_sent flow direction t tcp =
     (let is_syn = has_flag (tcp_flags tcp) TH_SYN; is_ack = has_flag (tcp_flags tcp) TH_ACK;
          is_fin = has_flag (tcp_flags tcp) TH_FIN; payload_len = tcp_data_len tcp
      in if payload_len > 0 \<or> (is_syn \<and> \<not> is_ack) \<or> is_fin then
           (let next_seq = tcp_seq tcp + payload_len
                           + (if is_syn \<and> \<not> is_ack then 1 else 0) + (if is_fin then 1 else 0)
            in flow\<lparr> tf_sent_seqs := (tf_sent_seqs flow)
                        (direction := (tf_sent_seqs flow direction)(next_seq \<mapsto> t)) \<rparr>)
         else flow)"

text \<open>
  Part B: the ACK that completes a measurement, then the clean-up that removes every
  older, fully acknowledged entry (all keys below the acknowledgment number).
\<close>

definition match_ack :: "TCPFlow \<Rightarrow> nat \<Rightarrow> real \<Rightarrow> packet \<Rightarrow> TCPFlow" where
  "match_ack flow direction t tcp =
     (let opposite_direction = (if direction = 0 then 1 else 0); ack_num = tcp_ack tcp in
      if has_flag (tcp_flags tcp) TH_ACK \<and> ack_num > 0 then
        (let f1 = (case tf_sent_seqs flow opposite_direction ack_num of
                     None \<Rightarrow> flow
                   | Some sent_ts \<Rightarrow>
                      (let rtt = (t - sent_ts) * 1000 in
                       if rtt > 0 then
                         (add_rtt_sample flow rtt)\<lparr> tf_sent_seqs := (tf_sent_seqs flow)
                            (opposite_direction :=
                               (tf_sent_seqs flow opposite_direction)(ack_num := None)) \<rparr>
                       else flow))
         in f1\<lparr> tf_sent_seqs := (tf_sent_seqs f1)
                  (opposite_direction :=
                     (\<lambda>seq_num. if seq_num < ack_num then None
                                else tf_sent_seqs f1 opposite_direction seq_num)) \<rparr>)
      else flow)"

definition continuous_rtt :: "TCPFlow \<Rightarrow> packet \<Rightarrow> TCPFlow" where
  "continuous_rtt flow p =
     match_ack (store_sent flow (direction_v1 p) (pkt_ts p) p) (direction_v1 p) (pkt_ts p) p"

text \<open>The segments of one connection, in order.\<close>

definition run_continuous_rtt :: "packet list \<Rightarrow> TCPFlow" where
  "run_continuous_rtt ps = foldl continuous_rtt new_TCPFlow ps"

section \<open>pcap\_analyzer\_v5.py\<close>

type_synonym endpoint = "string \<times> nat"
type_synonym stream_id = "endpoint \<times> endpoint"

text \<open>
  \<open>TrafficAnalyzer.get_stream_id\<close> for a TCP segment over IP: \<open>sorted\<close> on the two
  endpoints (a stable sort of two elements swaps them only when the second is smaller).
\<close>

definition get_stream_id :: "packet \<Rightarrow> stream_id \<times> nat" where
  "get_stream_id p =
     (let a = (ip_src p, tcp_sport p); b = (ip_dst p, tcp_dport p);
          endpoints = (if b < a then (b, a) else (a, b));
          direction = (if a = fst endpoints then 0 else 1)
      in (endpoints, direction))"

record StreamTracker =
  trk_stream_id :: stream_id
  trk_packet_count :: nat
  trk_bytes_transferred :: nat
  trk_start_time :: "real option"
  trk_end_time :: "real option"
  trk_pending_acks :: "nat \<rightharpoonup> real"
  trk_rtt_samples :: "real list"
  trk_seen_seqs :: "(nat \<times> nat) set"
  trk_retransmissions :: nat
  trk_syn_count :: nat
  trk_fin_count :: nat
  trk_rst_count :: nat
  trk_has_syn :: bool
  trk_has_fin :: bool

definition new_StreamTracker :: "stream_id \<Rightarrow> StreamTracker" where
  "new_StreamTracker sid =
     \<lparr> trk_stream_id = sid, trk_packet_count = 0, trk_bytes_transferred = 0,
       trk_start_time = None, trk_end_time = None,
       trk_pending_acks = Map.empty, trk_rtt_samples = [],
       trk_seen_seqs = {}, trk_retransmissions = 0,
       trk_syn_count = 0, trk_fin_count = 0, trk_rst_count = 0,
       trk_has_syn = False, trk_has_fin = False \<rparr>"

text \<open>
  \<open>StreamTracker.update\<close>, part by part: the counters, 1 (flags), 2 (retransmission
  detection) and 3 (RTT calculation: registering the expected ACK, then matching the ACK
  of the segment). The RTT samples of this script are in milliseconds.
\<close>

definition count_v5 :: "StreamTracker \<Rightarrow> packet \<Rightarrow> real \<Rightarrow> StreamTracker" where
  "count_v5 self p timestamp =
     self\<lparr> trk_start_time :=
              (if trk_start_time self = None then Some timestamp else trk_start_time self),
            trk_end_time := Some timestamp,
            trk_packet_count := trk_packet_count self + 1,
            trk_bytes_transferred := trk_bytes_transferred self + tcp_data_len p \<rparr>"

definition flags_v5 :: "StreamTracker \<Rightarrow> packet \<Rightarrow> StreamTracker" where
  "flags_v5 self p =
     (let fl = tcp_flags p;
          t2 = (if has_flag fl TH_SYN then self\<lparr> trk_syn_count := trk_syn_count self + 1 \<rparr> else self);
          t3 = (if has_flag fl TH_FIN then t2\<lparr> trk_fin_count := trk_fin_count t2 + 1 \<rparr> else t2)
      in if has_flag fl TH_RST then t3\<lparr> trk_rst_count := trk_rst_count t3 + 1 \<rparr> else t3)"

definition retrans_v5 :: "StreamTracker \<Rightarrow> packet \<Rightarrow> nat \<Rightarrow> StreamTracker" where
  "retrans_v5 self p direction_hash =
     (let seq_key = (direction_hash, tcp_seq p) in
      if tcp_data_len p > 0 then
        (if seq_key \<in> trk_seen_seqs self
         then self\<lparr> trk_retransmissions := trk_retransmissions self + 1 \<rparr>
         else self\<lparr> trk_seen_seqs := insert seq_key (trk_seen_seqs self) \<rparr>)
      else self)"

definition expected_ack_v5 :: "packet \<Rightarrow> nat" where
  "expected_ack_v5 p =
     tcp_seq p + tcp_data_len p
       + (if has_flag (tcp_flags p) TH_SYN then 1 else 0)
       + (if has_flag (tcp_flags p) TH_FIN then 1 else 0)"

definition register_v5 :: "StreamTracker \<Rightarrow> packet \<Rightarrow> real \<Rightarrow> StreamTracker" where
  "register_v5 self p timestamp =
     (if tcp_data_len p > 0 \<or> has_flag (tcp_flags p) TH_SYN
      then self\<lparr> trk_pending_acks := (trk_pending_acks self)(expected_ack_v5 p \<mapsto> timestamp) \<rparr>
      else self)"

definition resolve_v5 :: "StreamTracker \<Rightarrow> packet \<Rightarrow> real \<Rightarrow> StreamTracker" where
  "resolve_v5 self p timestamp =
     (if has_flag (tcp_flags p) TH_ACK then
        (case trk_pending_acks self (tcp_ack p) of
           None \<Rightarrow> self
         | Some sent \<Rightarrow>
            (let rtt = (timestamp - sent) * 1000;
                 t7 = (if 0 \<le> rtt \<and> rtt < 10000
                       then self\<lparr> trk_rtt_samples := trk_rtt_samples self @ [rtt] \<rparr> else self)
             in t7\<lparr> trk_pending_acks := (trk_pending_acks t7)(tcp_ack p := None) \<rparr>))
      else self)"

definition StreamTracker_update :: "StreamTracker \<Rightarrow> packet \<Rightarrow> real \<Rightarrow> nat \<Rightarrow> StreamTracker" where
  "StreamTracker_update self p timestamp direction_hash =
     resolve_v5 (register_v5 (retrans_v5 (flags_v5 (count_v5 self p timestamp) p) p direction_hash)
                   p timestamp) p timestamp"

text \<open>
  \<open>TrafficAnalyzer.process_packet\<close> for a TCP segment over IP (the UDP and other counters
  stay untouched). \<open>ip_src_counts\<close> is a \<open>Counter\<close>: a missing address counts as 0.
\<close>

record TrafficAnalyzer =
  ta_total_packets :: nat
  ta_total_bytes :: nat
  ta_start_time :: "real option"
  ta_end_time :: "real option"
  ta_ip_src_counts :: "string \<Rightarrow> nat"
  ta_tcp_counts :: nat
  ta_zero_window_events :: nat
  ta_streams :: "stream_id \<rightharpoonup> StreamTracker"

definition new_TrafficAnalyzer :: TrafficAnalyzer where
  "new_TrafficAnalyzer =
     \<lparr> ta_total_packets = 0, ta_total_bytes = 0, ta_start_time = None, ta_end_time = None,
       ta_ip_src_counts = (\<lambda>_. 0), ta_tcp_counts = 0, ta_zero_window_events = 0,
       ta_streams = Map.empty \<rparr>"

definition process_packet_v5 :: "TrafficAnalyzer \<Rightarrow> packet \<Rightarrow> TrafficAnalyzer" where
  "process_packet_v5 self p =
     (let t = pkt_ts p;
          a1 = self\<lparr> ta_total_packets := ta_total_packets self + 1,
                      ta_total_bytes := ta_total_bytes self + buf_len p,
                      ta_start_time := (if ta_start_time self = None then Some t else ta_start_time self),
                      ta_end_time := Some t,
                      ta_tcp_counts := ta_tcp_counts self + 1 \<rparr>;
          a2 = (if tcp_win p = 0 \<and> (has_flag (tcp_flags p) TH_ACK \<or> \<not> has_flag (tcp_flags p) TH_RST)
                then a1\<lparr> ta_zero_window_events := ta_zero_window_events a1 + 1 \<rparr> else a1);
          (s_id, direction) = get_stream_id p;
          m1 = setdefault (ta_streams a2) s_id (new_StreamTracker s_id);
          m2 = upd_flow m1 s_id (\<lambda>trk. StreamTracker_update trk p t direction)
      in a2\<lparr> ta_streams := m2,
              ta_ip_src_counts := (ta_ip_src_counts a2)(ip_src p := ta_ip_src_counts a2 (ip_src p) + buf_len p) \<rparr>)"

definition run_v5 :: "packet list \<Rightarrow> TrafficAnalyzer" where
  "run_v5 ps = foldl process_packet_v5 new_TrafficAnalyzer ps"

section \<open>pcap\_analyzer\_v9.py\<close>

definition RTO_THRESHOLD_MULTIPLIER :: real where "RTO_THRESHOLD_MULTIPLIER = 2.0"
definition MIN_RTO_MS :: real where "MIN_RTO_MS = 200"

text \<open>
  The fields of the flow object that packet analysis reads or writes. The negotiated
  options (\<open>mss\<close>, window scale, SACK, timestamps) are written by \<open>_parse_tcp_options\<close>
  only and read by the report only; they are left out with the option bytes.
\<close>

record FlowMetrics_v9 =
  v9_packet_count :: nat
  v9_start_ts :: real
  v9_end_ts :: real
  v9_handshake_rtt :: real
  v9_rtt_samples :: "real list"
  v9_retrans_fast :: nat
  v9_retrans_rto :: nat
  v9_zero_win_events :: nat
  v9_seq_tracker :: "nat \<rightharpoonup> real"

definition new_FlowMetrics_v9 :: FlowMetrics_v9 where
  "new_FlowMetrics_v9 =
     \<lparr> v9_packet_count = 0, v9_start_ts = 0, v9_end_ts = 0, v9_handshake_rtt = 0,
       v9_rtt_samples = [], v9_retrans_fast = 0, v9_retrans_rto = 0,
       v9_zero_win_events = 0, v9_seq_tracker = Map.empty \<rparr>"

definition avg_rtt_ms :: "FlowMetrics_v9 \<Rightarrow> real" where
  "avg_rtt_ms self =
     (if v9_rtt_samples self = [] then 0
      else (sum_list (v9_rtt_samples self) / real (length (v9_rtt_samples self))) * 1000)"

text \<open>
  \<open>ForensicEngine._analyze_packet\<close>, section by section: 1 (handshake), 2 (retransmission
  and loss forensics) and 4 (flow control). Section 3 computes nothing.
\<close>

definition handshake_v9 :: "FlowMetrics_v9 \<Rightarrow> real \<Rightarrow> packet \<Rightarrow> FlowMetrics_v9" where
  "handshake_v9 flow t tcp =
     (let is_syn = has_flag (tcp_flags tcp) TH_SYN;
          is_ack = has_flag (tcp_flags tcp) TH_ACK
      in if is_syn \<and> is_ack \<and> v9_packet_count flow \<ge> 2
         then flow\<lparr> v9_handshake_rtt := (t - v9_start_ts flow) * 1000 \<rparr> else flow)"

definition retrans_v9 :: "FlowMetrics_v9 \<Rightarrow> real \<Rightarrow> packet \<Rightarrow> FlowMetrics_v9" where
  "retrans_v9 flow t tcp =
     (let sq = tcp_seq tcp in
      if tcp_data_len tcp > 0 then
        (case v9_seq_tracker flow sq of
           Some original_ts \<Rightarrow>
             (let delta = t - original_ts;
                  baseline0 = avg_rtt_ms flow / 1000;
                  baseline = (if baseline0 = 0 then 0.1 else baseline0)
              in if delta > baseline * RTO_THRESHOLD_MULTIPLIER \<and> delta > MIN_RTO_MS / 1000
                 then flow\<lparr> v9_retrans_rto := v9_retrans_rto flow + 1 \<rparr>
                 else flow\<lparr> v9_retrans_fast := v9_retrans_fast flow + 1 \<rparr>)
         | None \<Rightarrow> flow\<lparr> v9_seq_tracker := (v9_seq_tracker flow)(sq \<mapsto> t) \<rparr>)
      else flow)"

definition flow_control_v9 :: "FlowMetrics_v9 \<Rightarrow> packet \<Rightarrow> FlowMetrics_v9" where
  "flow_control_v9 flow tcp =
     (if tcp_win tcp = 0 then flow\<lparr> v9_zero_win_events := v9_zero_win_events flow + 1 \<rparr>
      else flow)"

definition analyze_packet_v9 :: "FlowMetrics_v9 \<Rightarrow> real \<Rightarrow> packet \<Rightarrow> FlowMetrics_v9" where
  "analyze_packet_v9 flow t tcp =
     flow_control_v9 (retrans_v9 (handshake_v9 flow t tcp) t tcp) tcp"

text \<open>The part of the loop of \<open>process_pcap\<close> that works on the flow of the segment.\<close>

definition flow_step_v9 :: "FlowMetrics_v9 \<Rightarrow> packet \<Rightarrow> FlowMetrics_v9" where
  "flow_step_v9 flow p =
     (let t = pkt_ts p;
          f1 = flow\<lparr> v9_packet_count := v9_packet_count flow + 1 \<rparr>;
          f2 = (if v9_start_ts f1 = 0 then f1\<lparr> v9_start_ts := t \<rparr> else f1);
          f3 = f2\<lparr> v9_end_ts := t \<rparr>
      in analyze_packet_v9 f3 t p)"

definition run_flow_v9 :: "packet list \<Rightarrow> FlowMetrics_v9" where
  "run_flow_v9 ps = foldl flow_step_v9 new_FlowMetrics_v9 ps"

section \<open>pcap\_analyzer\_v10.py\<close>

record StreamMetrics =
  sm_flow_id :: nat
  sm_start_ts :: real
  sm_last_ts :: real
  sm_packets :: nat
  sm_bytes_payload :: nat
  sm_syn_seen :: bool
  sm_syn_ack_seen :: bool
  sm_fin_seen :: bool
  sm_rst_seen :: bool
  sm_rtt_samples :: "real list"
  sm_retrans_fast :: nat
  sm_retrans_rto :: nat
  sm_zero_wins :: nat
  sm_next_seq :: "nat \<Rightarrow> nat"
  sm_unacked_segments :: "nat \<Rightarrow> (nat \<rightharpoonup> real)"

definition new_StreamMetrics :: "nat \<Rightarrow> StreamMetrics" where
  "new_StreamMetrics fid =
     \<lparr> sm_flow_id = fid, sm_start_ts = 0, sm_last_ts = 0, sm_packets = 0, sm_bytes_payload = 0,
       sm_syn_seen = False, sm_syn_ack_seen = False, sm_fin_seen = False, sm_rst_seen = False,
       sm_rtt_samples = [], sm_retrans_fast = 0, sm_retrans_rto = 0, sm_zero_wins = 0,
       sm_next_seq = (\<lambda>_. 0), sm_unacked_segments = (\<lambda>_. Map.empty) \<rparr>"

definition avg_rtt :: "StreamMetrics \<Rightarrow> real" where
  "avg_rtt self =
     (if sm_rtt_samples self = [] then 0
      else sum_list (sm_rtt_samples self) / real (length (sm_rtt_samples self)))"

text \<open>
  \<open>ForensicsEngine.analyze_packet\<close> from \<open>flow.last_ts = ts\<close> on, for the stream of the
  segment and the direction the key normalisation gave it, phase by phase as the source
  has them: the counters, phases 1 and 5 (flags), phase 4 (window), phase 3
  (retransmissions) and phase 2 (RTT).
\<close>

definition count_v10 :: "StreamMetrics \<Rightarrow> packet \<Rightarrow> StreamMetrics" where
  "count_v10 flow tcp =
     flow\<lparr> sm_last_ts := pkt_ts tcp, sm_packets := sm_packets flow + 1,
            sm_bytes_payload := sm_bytes_payload flow + tcp_data_len tcp \<rparr>"

definition flags_v10 :: "StreamMetrics \<Rightarrow> packet \<Rightarrow> StreamMetrics" where
  "flags_v10 flow tcp =
     (let fl = tcp_flags tcp;
          f1 = (if has_flag fl TH_SYN then
                  (if has_flag fl TH_ACK then flow\<lparr> sm_syn_ack_seen := True \<rparr>
                   else flow\<lparr> sm_syn_seen := True \<rparr>)
                else flow);
          f2 = (if has_flag fl TH_RST then f1\<lparr> sm_rst_seen := True \<rparr> else f1)
      in if has_flag fl TH_FIN then f2\<lparr> sm_fin_seen := True \<rparr> else f2)"

definition window_v10 :: "StreamMetrics \<Rightarrow> packet \<Rightarrow> StreamMetrics" where
  "window_v10 flow tcp =
     (if tcp_win tcp = 0 \<and> \<not> has_flag (tcp_flags tcp) TH_RST
      then flow\<lparr> sm_zero_wins := sm_zero_wins flow + 1 \<rparr> else flow)"

definition retrans_v10 :: "StreamMetrics \<Rightarrow> nat \<Rightarrow> packet \<Rightarrow> StreamMetrics" where
  "retrans_v10 flow direction tcp =
     (let t = pkt_ts tcp; payload_len = tcp_data_len tcp in
      if payload_len > 0 then
        (let expected = sm_next_seq flow direction in
         if expected \<noteq> 0 \<and> tcp_seq tcp < expected then
           (if sm_rtt_samples flow \<noteq> [] then
              (if avg_rtt flow > 0 \<and> (t - sm_start_ts flow) > avg_rtt flow * 2
               then flow\<lparr> sm_retrans_rto := sm_retrans_rto flow + 1 \<rparr>
               else flow\<lparr> sm_retrans_fast := sm_retrans_fast flow + 1 \<rparr>)
            else flow\<lparr> sm_retrans_fast := sm_retrans_fast flow + 1 \<rparr>)
         else flow\<lparr> sm_next_seq := (sm_next_seq flow)(direction := tcp_seq tcp + payload_len),
                    sm_unacked_segments := (sm_unacked_segments flow)
                      (direction := (sm_unacked_segments flow direction)
                         (tcp_seq tcp + payload_len \<mapsto> t)) \<rparr>)
      else flow)"

definition rtt_v10 :: "StreamMetrics \<Rightarrow> nat \<Rightarrow> packet \<Rightarrow> StreamMetrics" where
  "rtt_v10 flow direction tcp =
     (if has_flag (tcp_flags tcp) TH_ACK then
        (let rev_dir = 1 - direction in
         case sm_unacked_segments flow rev_dir (tcp_ack tcp) of
           None \<Rightarrow> flow
         | Some sent_ts \<Rightarrow>
            (let rtt = (pkt_ts tcp - sent_ts) * 1000;
                 f1 = (if rtt > 0 \<and> rtt < 5000
                       then flow\<lparr> sm_rtt_samples := sm_rtt_samples flow @ [rtt] \<rparr> else flow)
             in f1\<lparr> sm_unacked_segments := (sm_unacked_segments f1)
                       (rev_dir := (sm_unacked_segments f1 rev_dir)(tcp_ack tcp := None)) \<rparr>))
      else flow)"

definition stream_step :: "StreamMetrics \<Rightarrow> nat \<Rightarrow> packet \<Rightarrow> StreamMetrics" where
  "stream_step flow direction tcp =
     rtt_v10 (retrans_v10 (window_v10 (flags_v10 (count_v10 flow tcp) tcp) tcp) direction tcp)
       direction tcp"

text \<open>The key normalisation of \<open>analyze_packet\<close>: by address, then by port.\<close>

definition normalize_key :: "packet \<Rightarrow> flow_key \<times> nat" where
  "normalize_key p =
     (if ip_src p < ip_dst p then ((ip_src p, tcp_sport p, ip_dst p, tcp_dport p), 0)
      else if ip_src p > ip_dst p then ((ip_dst p, tcp_dport p, ip_src p, tcp_sport p), 1)
      else if tcp_sport p < tcp_dport p then ((ip_src p, tcp_sport p, ip_dst p, tcp_dport p), 0)
      else ((ip_dst p, tcp_dport p, ip_src p, tcp_sport p), 1))"

text \<open>\<open>start_capture\<close> starts at \<open>float('inf')\<close>: \<open>None\<close> below.\<close>

record ForensicsEngine =
  fe_streams :: "flow_key \<rightharpoonup> StreamMetrics"
  fe_global_packets :: nat
  fe_global_bytes :: nat
  fe_start_capture :: "real option"
  fe_end_capture :: real

definition new_ForensicsEngine :: ForensicsEngine where
  "new_ForensicsEngine =
     \<lparr> fe_streams = Map.empty, fe_global_packets = 0, fe_global_bytes = 0,
       fe_start_capture = None, fe_end_capture = 0 \<rparr>"

definition analyze_packet_v10 :: "ForensicsEngine \<Rightarrow> packet \<Rightarrow> ForensicsEngine" where
  "analyze_packet_v10 self p =
     (let t = pkt_ts p;
          (flow_key, direction) = normalize_key p;
          m0 = fe_streams self;
          m1 = setdefault m0 flow_key ((new_StreamMetrics (card (dom m0) + 1))\<lparr> sm_start_ts := t \<rparr>);
          m2 = upd_flow m1 flow_key (\<lambda>flow. stream_step flow direction p)
      in \<lparr> fe_streams = m2,
           fe_global_packets = fe_global_packets self + 1,
           fe_global_bytes = fe_global_bytes self + buf_len p,
           fe_start_capture = (case fe_start_capture self of None \<Rightarrow> Some t
                                | Some s \<Rightarrow> Some (min s t)),
           fe_end_capture = max (fe_end_capture self) t \<rparr>)"

definition run_v10 :: "packet list \<Rightarrow> ForensicsEngine" where
  "run_v10 ps = foldl analyze_packet_v10 new_ForensicsEngine ps"

section \<open>Synthetic segments and the classification rule of the specification\<close>

text \<open>
  A decoded segment from endpoint \<open>(s, sp)\<close> to \<open>(d, dp)\<close> with an Ethernet, IPv4 and TCP
  header of 54 bytes in front of the payload.
\<close>

definition mk_packet ::
  "real \<Rightarrow> string \<Rightarrow> nat \<Rightarrow> string \<Rightarrow> nat \<Rightarrow> nat \<Rightarrow> nat \<Rightarrow> nat \<Rightarrow> nat \<Rightarrow> nat \<Rightarrow> packet" where
  "mk_packet t s sp d dp sq ak fl w n =
     \<lparr> pkt_ts = t, ip_src = s, ip_dst = d, tcp_sport = sp, tcp_dport = dp,
       tcp_seq = sq, tcp_ack = ak, tcp_flags = fl, tcp_win = w, tcp_data_len = n,
       buf_len = n + 54 \<rparr>"

text \<open>
  The unordered pair of endpoints of a directional 4-tuple and of a segment, and the
  segment with source and destination exchanged.
\<close>

definition endpoints_of :: "flow_key \<Rightarrow> endpoint set" where
  "endpoints_of k = (case k of (a, ap, b, bp) \<Rightarrow> {(a, ap), (b, bp)})"

definition packet_endpoints :: "packet \<Rightarrow> endpoint set" where
  "packet_endpoints p = {(ip_src p, tcp_sport p), (ip_dst p, tcp_dport p)}"

definition reverse_packet :: "packet \<Rightarrow> packet" where
  "reverse_packet p =
     p\<lparr> ip_src := ip_dst p, ip_dst := ip_src p, tcp_sport := tcp_dport p, tcp_dport := tcp_sport p \<rparr>"

text \<open>
  What the per-IP aggregations should amount to, written without a loop: the rows (or flow
  results) of one address, and their component sums.
\<close>

definition rows_of_ip :: "string \<Rightarrow> flow_row list \<Rightarrow> flow_row list" where
  "rows_of_ip ip rows = filter (\<lambda>r. row_src_ip r = ip) rows"

definition sum_stat :: "flow_row list \<Rightarrow> ip_stat" where
  "sum_stat rs = \<lparr> st_c = sum_list (map row_p_client rs), st_n = sum_list (map row_p_network rs),
                   st_s = sum_list (map row_p_server rs), st_count = length rs \<rparr>"

definition results_from :: "string \<Rightarrow> (flow_key \<times> prob3) list \<Rightarrow> prob3 list" where
  "results_from ip flow_results = map snd (filter (\<lambda>kv. fst (fst kv) = ip) flow_results)"

definition results_to :: "string \<Rightarrow> (flow_key \<times> prob3) list \<Rightarrow> prob3 list" where
  "results_to ip flow_results =
     map snd (filter (\<lambda>kv. fst (snd (snd (fst kv))) = ip) flow_results)"

definition sum_prob :: "prob3 list \<Rightarrow> prob3" where
  "sum_prob vs = (sum_list (map fst vs), sum_list (map (\<lambda>v. fst (snd v)) vs),
                  sum_list (map (\<lambda>v. snd (snd v)) vs))"

text \<open>
  The rule of section 4.2 of the specification, in its words: \<open>delta\<close> is the time since
  the last observation on the flow, the baseline is the average RTT when at least three
  samples exist and a fixed fallback otherwise, and the retransmission is a timeout when
  \<open>delta > max(RTO_FLOOR, 2 * baseline)\<close>.
\<close>

definition spec_is_timeout :: "real \<Rightarrow> real \<Rightarrow> real list \<Rightarrow> real \<Rightarrow> bool" where
  "spec_is_timeout rto_floor fallback rtts delta =
     (let baseline = (if length rtts \<ge> 3 then sum_list rtts / real (length rtts) else fallback)
      in delta > max rto_floor (2 * baseline))"

section \<open>Properties of pcap\_analyzer\_v4.py\<close>

lemma AnomalyDetector_out_of_order:
  "v4_out_of_order (AnomalyDetector_process flow tcp) = v4_out_of_order flow"
  by (simp add: AnomalyDetector_process_def Let_def)

lemma flag_eval:
  "has_flag 16 TH_ACK" "\<not> has_flag 16 TH_SYN" "\<not> has_flag 16 TH_RST" "\<not> has_flag 16 TH_FIN"
  "has_flag 24 TH_ACK" "\<not> has_flag 24 TH_SYN" "\<not> has_flag 24 TH_RST" "\<not> has_flag 24 TH_FIN"
  "has_flag 4 TH_RST" "\<not> has_flag 4 TH_ACK" "\<not> has_flag 4 TH_SYN" "\<not> has_flag 4 TH_FIN"
  "has_flag 20 TH_RST" "has_flag 20 TH_ACK" "\<not> has_flag 20 TH_SYN" "\<not> has_flag 20 TH_FIN"
  by (simp_all add: has_flag_def TH_ACK_def TH_SYN_def TH_RST_def TH_FIN_def)

lemmas v4_eval = run_v4_def process_packet_def Let_def upd_flow_def setdefault_def
  new_GlobalState_def new_FlowMetrics_v4_def BasicStatsAnalyzer_process_def v4_ack_match_def
  RTTAnalyzer_process_def AnomalyDetector_process_def mk_packet_def flag_eval

lemma upd_flow_inv:
  assumes "\<And>k v. m k = Some v \<Longrightarrow> P v" and "\<And>v. P v \<Longrightarrow> P (f v)"
    and "upd_flow m k' f k = Some v"
  shows "P v"
  using assms by (auto simp: upd_flow_def split: option.splits if_splits)

lemma setdefault_inv:
  assumes "\<And>k v. m k = Some v \<Longrightarrow> P v" and "P d"
    and "setdefault m k' d k = Some v"
  shows "P v"
  using assms by (auto simp: setdefault_def split: if_splits)

lemma BasicStats_ooo: "v4_out_of_order (BasicStatsAnalyzer_process f a b c) = v4_out_of_order f"
  by (simp add: BasicStatsAnalyzer_process_def Let_def)

lemma ack_match_ooo: "v4_out_of_order (v4_ack_match f p t) = v4_out_of_order f"
  by (simp add: v4_ack_match_def Let_def split: option.splits)

lemma RTTAnalyzer_ooo: "v4_out_of_order (RTTAnalyzer_process f p t) = v4_out_of_order f"
  by (simp add: RTTAnalyzer_process_def Let_def)

lemma AnomalyDetector_seen:
  "tcp_data_len tcp > 0 \<Longrightarrow> tcp_seq tcp \<in> v4_seen_seqs (AnomalyDetector_process flow tcp)"
  by (simp add: AnomalyDetector_process_def Let_def)

lemma gs_flows_process_packet:
  "gs_flows (process_packet st p) =
     upd_flow (upd_flow (upd_flow (upd_flow
       (setdefault (setdefault (gs_flows st) (ip_src p, tcp_sport p, ip_dst p, tcp_dport p)
            (new_FlowMetrics_v4 (ip_src p) (tcp_sport p) (ip_dst p) (tcp_dport p)))
          (ip_dst p, tcp_dport p, ip_src p, tcp_sport p)
          (new_FlowMetrics_v4 (ip_dst p) (tcp_dport p) (ip_src p) (tcp_sport p)))
       (ip_src p, tcp_sport p, ip_dst p, tcp_dport p)
         (\<lambda>f. BasicStatsAnalyzer_process f (tcp_flags p) (buf_len p) (pkt_ts p)))
       (ip_dst p, tcp_dport p, ip_src p, tcp_sport p) (\<lambda>f. v4_ack_match f p (pkt_ts p)))
       (ip_src p, tcp_sport p, ip_dst p, tcp_dport p) (\<lambda>f. RTTAnalyzer_process f p (pkt_ts p)))
       (ip_src p, tcp_sport p, ip_dst p, tcp_dport p) (\<lambda>f. AnomalyDetector_process f p)"
  by (simp add: process_packet_def Let_def)

lemma process_packet_ooo:
  assumes "\<And>k fl. gs_flows st k = Some fl \<Longrightarrow> v4_out_of_order fl = 0"
    and "gs_flows (process_packet st p) k = Some fl"
  shows "v4_out_of_order fl = 0"
  using assms(2) unfolding gs_flows_process_packet
  apply (rule upd_flow_inv[where P = "\<lambda>f. v4_out_of_order f = 0", rotated 2])
   apply (erule upd_flow_inv[where P = "\<lambda>f. v4_out_of_order f = 0", rotated 2])
    apply (erule upd_flow_inv[where P = "\<lambda>f. v4_out_of_order f = 0", rotated 2])
     apply (erule upd_flow_inv[where P = "\<lambda>f. v4_out_of_order f = 0", rotated 2])
      apply (erule setdefault_inv[where P = "\<lambda>f. v4_out_of_order f = 0", rotated 2])
       apply (erule setdefault_inv[where P = "\<lambda>f. v4_out_of_order f = 0", rotated 2])
        apply (erule assms(1))
       apply (simp add: new_FlowMetrics_v4_def)
      apply (simp add: new_FlowMetrics_v4_def)
     apply (simp add: BasicStats_ooo)
    apply (simp add: ack_match_ooo)
   apply (simp add: RTTAnalyzer_ooo)
  apply (simp add: AnomalyDetector_out_of_order)
  done

lemma foldl_process_ooo:
  "(\<And>k fl. gs_flows st k = Some fl \<Longrightarrow> v4_out_of_order fl = 0) \<Longrightarrow>
   gs_flows (foldl process_packet st ps) k = Some fl \<Longrightarrow> v4_out_of_order fl = 0"
proof (induction ps arbitrary: st k fl)
  case Nil then show ?case by simp
next
  case (Cons p ps)
  have "\<And>k fl. gs_flows (process_packet st p) k = Some fl \<Longrightarrow> v4_out_of_order fl = 0"
    using Cons.prems(1) by (rule process_packet_ooo)
  then show ?case using Cons.prems(2) Cons.IH[of "process_packet st p" k fl] by simp
qed

text \<open>
  Claim C10. In \<open>AnomalyDetector.process\<close> the start sequence number of a data segment is in
  \<open>seen_seqs\<close> before the out-of-order test is evaluated, so the test
  \<open>seq < max_seq and seq not in seen_seqs\<close> never holds: one call leaves \<open>out_of_order\<close>
  as it was, and after any sequence of segments every flow of the analysis has
  \<open>out_of_order = 0\<close>.
\<close>

theorem out_of_order_never_incremented:
  "(tcp_data_len tcp > 0 \<longrightarrow> tcp_seq tcp \<in> v4_seen_seqs (AnomalyDetector_process flow tcp))
   \<and> v4_out_of_order (AnomalyDetector_process flow tcp) = v4_out_of_order flow
   \<and> (\<forall>k fl. gs_flows (run_v4 ps) k = Some fl \<longrightarrow> v4_out_of_order fl = 0)"
proof (intro conjI allI impI)
  fix k fl assume "gs_flows (run_v4 ps) k = Some fl"
  then show "v4_out_of_order fl = 0"
    unfolding run_v4_def
    by (rule foldl_process_ooo[rotated]) (simp add: new_GlobalState_def)
qed (simp_all add: AnomalyDetector_seen AnomalyDetector_out_of_order)

text \<open>
  The second segment below arrives behind the highest sequence number seen (100 after 300)
  and is new: a segment out of order, which the counter does not record.
\<close>

theorem out_of_order_never_incremented_witness:
  "tcp_data_len (mk_packet 1.1 ''A'' 1000 ''B'' 80 100 1 24 500 100) > 0
   \<and> 100 \<in> v4_seen_seqs (AnomalyDetector_process
              ((new_FlowMetrics_v4 ''A'' 1000 ''B'' 80)\<lparr> v4_seen_seqs := {300}, v4_max_seq := 300 \<rparr>)
              (mk_packet 1.1 ''A'' 1000 ''B'' 80 100 1 24 500 100))
   \<and> (\<exists>fl. gs_flows (run_v4 [mk_packet 1.0 ''A'' 1000 ''B'' 80 300 1 24 500 100,
                           mk_packet 1.1 ''A'' 1000 ''B'' 80 100 1 24 500 100])
           (''A'', 1000, ''B'', 80) = Some fl
        \<and> v4_max_seq fl = 300 \<and> v4_seen_seqs fl = {100, 300} \<and> v4_out_of_order fl = 0)"
proof -
  let ?p = "mk_packet 1.1 ''A'' 1000 ''B'' 80 100 1 24 500 100"
  let ?f = "(new_FlowMetrics_v4 ''A'' 1000 ''B'' 80)\<lparr> v4_seen_seqs := {300}, v4_max_seq := 300 \<rparr>"
  let ?ps = "[mk_packet 1.0 ''A'' 1000 ''B'' 80 300 1 24 500 100,
              mk_packet 1.1 ''A'' 1000 ''B'' 80 100 1 24 500 100]"
  let ?k = "(''A'', 1000::nat, ''B'', 80::nat)"
  note T = out_of_order_never_incremented[of ?p ?f ?ps]
  have d: "tcp_data_len ?p > 0" by (simp add: mk_packet_def)
  with T have "tcp_seq ?p \<in> v4_seen_seqs (AnomalyDetector_process ?f ?p)" by blast
  then have s: "100 \<in> v4_seen_seqs (AnomalyDetector_process ?f ?p)" by (simp add: mk_packet_def)
  have "map_option (\<lambda>fl. (v4_max_seq fl, v4_seen_seqs fl)) (gs_flows (run_v4 ?ps) ?k)
        = Some (300, {100, 300})"
    by (simp add: v4_eval insert_commute)
  then obtain fl where fl: "gs_flows (run_v4 ?ps) ?k = Some fl"
    and v: "v4_max_seq fl = 300" "v4_seen_seqs fl = {100, 300}"
    by auto
  from T fl have "v4_out_of_order fl = 0"
    by blast
  with d s fl v show ?thesis by blast
qed

lemmas rep_eval = analyze_pcap_def analyze_step_def count_packet_def rtt_match_def rtt_expect_def
  Let_def upd_flow_def dd_get_def
  new_analysis_def new_FlowMetrics_def retrans_detect_def small_win_def
  RTO_HEURISTIC_THRESH_def mk_packet_def flag_eval

lemmas v9_eval = run_flow_v9_def flow_step_v9_def analyze_packet_v9_def handshake_v9_def
  retrans_v9_def flow_control_v9_def Let_def
  new_FlowMetrics_v9_def avg_rtt_ms_def RTO_THRESHOLD_MULTIPLIER_def MIN_RTO_MS_def
  mk_packet_def flag_eval

section \<open>Zero windows and RST segments\<close>

lemma count_v10_zero_wins [simp]: "sm_zero_wins (count_v10 f p) = sm_zero_wins f"
  by (simp add: count_v10_def)

lemma flags_v10_zero_wins [simp]: "sm_zero_wins (flags_v10 f p) = sm_zero_wins f"
  by (simp add: flags_v10_def Let_def)

lemma retrans_v10_zero_wins [simp]: "sm_zero_wins (retrans_v10 f d p) = sm_zero_wins f"
  by (simp add: retrans_v10_def Let_def)

lemma rtt_v10_zero_wins [simp]: "sm_zero_wins (rtt_v10 f d p) = sm_zero_wins f"
  by (simp add: rtt_v10_def Let_def split: option.splits)

lemma stream_step_zero_wins:
  "sm_zero_wins (stream_step flow direction tcp) =
     sm_zero_wins flow + (if tcp_win tcp = 0 \<and> \<not> has_flag (tcp_flags tcp) TH_RST then 1 else 0)"
  by (simp add: stream_step_def window_v10_def)

lemma handshake_v9_zero_win [simp]: "v9_zero_win_events (handshake_v9 f t p) = v9_zero_win_events f"
  by (simp add: handshake_v9_def Let_def)

lemma retrans_v9_zero_win [simp]: "v9_zero_win_events (retrans_v9 f t p) = v9_zero_win_events f"
  by (simp add: retrans_v9_def Let_def split: option.splits)

lemma analyze_packet_v9_zero_win:
  "v9_zero_win_events (analyze_packet_v9 flow t tcp) =
     v9_zero_win_events flow + (if tcp_win tcp = 0 then 1 else 0)"
  by (simp add: analyze_packet_v9_def flow_control_v9_def)

lemma AnomalyDetector_zero_window:
  "v4_zero_window_count (AnomalyDetector_process flow tcp) =
     v4_zero_window_count flow + (if tcp_win tcp = 0 \<and> \<not> has_flag (tcp_flags tcp) TH_RST then 1 else 0)"
  by (simp add: AnomalyDetector_process_def Let_def)

text \<open>
  Claim C7. The zero-window counter goes up exactly when the advertised window is 0 and
  the segment carries no RST. \<open>ForensicsEngine.analyze_packet\<close> of pcap\_analyzer\_v10.py
  and \<open>AnomalyDetector.process\<close> of pcap\_analyzer\_v4.py do so for every segment.
  \<open>ForensicEngine._analyze_packet\<close> of pcap\_analyzer\_v9.py tests the window only: a RST
  with window 0, the first segment of a flow here, leaves \<open>zero_win_events = 1\<close>.
\<close>

theorem zero_window_rst_exclusion:
  "sm_zero_wins (stream_step flow direction tcp) =
     sm_zero_wins flow + (if tcp_win tcp = 0 \<and> \<not> has_flag (tcp_flags tcp) TH_RST then 1 else 0)
   \<and> v4_zero_window_count (AnomalyDetector_process flow4 tcp) =
     v4_zero_window_count flow4 + (if tcp_win tcp = 0 \<and> \<not> has_flag (tcp_flags tcp) TH_RST then 1 else 0)
   \<and> v9_zero_win_events (analyze_packet_v9 flow9 t tcp) =
     v9_zero_win_events flow9 + (if tcp_win tcp = 0 then 1 else 0)
   \<and> has_flag (tcp_flags (mk_packet 1.0 ''A'' 1000 ''B'' 80 100 0 4 0 0)) TH_RST
   \<and> v9_zero_win_events (run_flow_v9 [mk_packet 1.0 ''A'' 1000 ''B'' 80 100 0 4 0 0]) = 1"
proof (intro conjI)
  show "v9_zero_win_events (run_flow_v9 [mk_packet 1.0 ''A'' 1000 ''B'' 80 100 0 4 0 0]) = 1"
    by (simp add: v9_eval)
  show "has_flag (tcp_flags (mk_packet 1.0 ''A'' 1000 ''B'' 80 100 0 4 0 0)) TH_RST"
    by (simp add: mk_packet_def flag_eval)
qed (simp_all only: stream_step_zero_wins AnomalyDetector_zero_window analyze_packet_v9_zero_win)

section \<open>RTT samples and retransmitted copies\<close>

lemma RTTAnalyzer_unacked:
  "v4_unacked_packets (RTTAnalyzer_process flow tcp t) =
     (if tcp_data_len tcp > 0 \<and> tcp_seq tcp \<notin> v4_seen_seqs flow
      then (v4_unacked_packets flow)(tcp_seq tcp + tcp_data_len tcp \<mapsto> t)
      else v4_unacked_packets flow)"
  by (simp add: RTTAnalyzer_process_def Let_def)

lemma rtt_expect_unacked:
  "unacked_packets (rtt_expect st p) (ip_src p, tcp_sport p, ip_dst p, tcp_dport p) =
     (if tcp_data_len p > 0
      then Some ((dd_get (unacked_packets st) Map.empty (ip_src p, tcp_sport p, ip_dst p, tcp_dport p))
                   (tcp_seq p + tcp_data_len p \<mapsto> pkt_ts p))
      else unacked_packets st (ip_src p, tcp_sport p, ip_dst p, tcp_dport p))"
  by (simp add: rtt_expect_def Let_def)

text \<open>
  Claim C4. A data segment at 1.000 s with \<open>seq = 100\<close> and 50 bytes, acknowledged by
  \<open>ack = 150\<close> from the other side at 1.050 s, gives exactly one RTT sample of 0.050 s, in
  pcap\_analyzer\_v4.py and in analyze\_and\_generate\_report.py. \<open>RTTAnalyzer.process\<close> of
  pcap\_analyzer\_v4.py registers a pending entry only for a start sequence number not seen
  before (Karn's rule), so a retransmitted copy at 1.2 s acknowledged at 1.23 s adds no
  sample. \<open>analyze_pcap\<close> of analyze\_and\_generate\_report.py registers every data segment:
  on the same four segments it records a second sample, 0.03 s, measured from the copy.
\<close>

theorem rtt_correlation_and_karn:
  "map_option v4_rtt_samples (gs_flows (run_v4
      [mk_packet 1.0 ''A'' 1000 ''B'' 80 100 1 24 500 50,
       mk_packet 1.05 ''B'' 80 ''A'' 1000 1 150 16 500 0]) (''A'', 1000, ''B'', 80)) = Some [0.05]
   \<and> map_option fm_rtt_samples (flows (analyze_pcap
      [mk_packet 1.0 ''A'' 1000 ''B'' 80 100 1 24 500 50,
       mk_packet 1.05 ''B'' 80 ''A'' 1000 1 150 16 500 0]) (''A'', 1000, ''B'', 80)) = Some [0.05]
   \<and> v4_unacked_packets (RTTAnalyzer_process flow tcp t) =
       (if tcp_data_len tcp > 0 \<and> tcp_seq tcp \<notin> v4_seen_seqs flow
        then (v4_unacked_packets flow)(tcp_seq tcp + tcp_data_len tcp \<mapsto> t)
        else v4_unacked_packets flow)
   \<and> map_option v4_rtt_samples (gs_flows (run_v4
      [mk_packet 1.0 ''A'' 1000 ''B'' 80 100 1 24 500 50,
       mk_packet 1.05 ''B'' 80 ''A'' 1000 1 150 16 500 0,
       mk_packet 1.2 ''A'' 1000 ''B'' 80 100 1 24 500 50,
       mk_packet 1.23 ''B'' 80 ''A'' 1000 1 150 16 500 0]) (''A'', 1000, ''B'', 80)) = Some [0.05]
   \<and> unacked_packets (rtt_expect st p) (ip_src p, tcp_sport p, ip_dst p, tcp_dport p) =
       (if tcp_data_len p > 0
        then Some ((dd_get (unacked_packets st) Map.empty (ip_src p, tcp_sport p, ip_dst p, tcp_dport p))
                     (tcp_seq p + tcp_data_len p \<mapsto> pkt_ts p))
        else unacked_packets st (ip_src p, tcp_sport p, ip_dst p, tcp_dport p))
   \<and> map_option fm_rtt_samples (flows (analyze_pcap
      [mk_packet 1.0 ''A'' 1000 ''B'' 80 100 1 24 500 50,
       mk_packet 1.05 ''B'' 80 ''A'' 1000 1 150 16 500 0,
       mk_packet 1.2 ''A'' 1000 ''B'' 80 100 1 24 500 50,
       mk_packet 1.23 ''B'' 80 ''A'' 1000 1 150 16 500 0]) (''A'', 1000, ''B'', 80))
       = Some [0.05, 0.03]"
proof (intro conjI)
  show "map_option v4_rtt_samples (gs_flows (run_v4
      [mk_packet 1.0 ''A'' 1000 ''B'' 80 100 1 24 500 50,
       mk_packet 1.05 ''B'' 80 ''A'' 1000 1 150 16 500 0]) (''A'', 1000, ''B'', 80)) = Some [0.05]"
    by (simp add: v4_eval)
  show "map_option fm_rtt_samples (flows (analyze_pcap
      [mk_packet 1.0 ''A'' 1000 ''B'' 80 100 1 24 500 50,
       mk_packet 1.05 ''B'' 80 ''A'' 1000 1 150 16 500 0]) (''A'', 1000, ''B'', 80)) = Some [0.05]"
    by (simp add: rep_eval)
  show "map_option v4_rtt_samples (gs_flows (run_v4
      [mk_packet 1.0 ''A'' 1000 ''B'' 80 100 1 24 500 50,
       mk_packet 1.05 ''B'' 80 ''A'' 1000 1 150 16 500 0,
       mk_packet 1.2 ''A'' 1000 ''B'' 80 100 1 24 500 50,
       mk_packet 1.23 ''B'' 80 ''A'' 1000 1 150 16 500 0]) (''A'', 1000, ''B'', 80)) = Some [0.05]"
    by (simp add: v4_eval)
  show "map_option fm_rtt_samples (flows (analyze_pcap
      [mk_packet 1.0 ''A'' 1000 ''B'' 80 100 1 24 500 50,
       mk_packet 1.05 ''B'' 80 ''A'' 1000 1 150 16 500 0,
       mk_packet 1.2 ''A'' 1000 ''B'' 80 100 1 24 500 50,
       mk_packet 1.23 ''B'' 80 ''A'' 1000 1 150 16 500 0]) (''A'', 1000, ''B'', 80))
       = Some [0.05, 0.03]"
    by (simp add: rep_eval)
qed (simp_all only: RTTAnalyzer_unacked rtt_expect_unacked)

section \<open>The highest sequence number\<close>

lemma AnomalyDetector_max_seq:
  "v4_max_seq (AnomalyDetector_process flow tcp) =
     (if tcp_data_len tcp > 0 then max (v4_max_seq flow) (tcp_seq tcp) else v4_max_seq flow)"
  by (simp add: AnomalyDetector_process_def Let_def max_def)

lemma retrans_detect_max_seq:
  "fm_max_seq (retrans_detect fm p) =
     (if tcp_data_len p > 0 then max (fm_max_seq fm) (tcp_seq p) else fm_max_seq fm)"
  by (simp add: retrans_detect_def Let_def)

lemma v4_c3:
  "map_option (\<lambda>f. (v4_retransmissions f, v4_out_of_order f, v4_max_seq f))
     (gs_flows (run_v4
        [mk_packet 1.0 ''A'' 1000 ''B'' 80 100 1 24 500 100,
         mk_packet 1.1 ''A'' 1000 ''B'' 80 200 1 24 500 100,
         mk_packet 1.2 ''A'' 1000 ''B'' 80 100 1 24 500 100,
         mk_packet 1.3 ''A'' 1000 ''B'' 80 300 1 24 500 100]) (''A'', 1000, ''B'', 80))
   = Some (1, 0, 300)"
  by (simp add: v4_eval)

lemma rep_c3:
  "map_option (\<lambda>f. (fm_retrans f, fm_max_seq f))
     (flows (analyze_pcap
        [mk_packet 1.0 ''A'' 1000 ''B'' 80 100 1 24 500 100,
         mk_packet 1.1 ''A'' 1000 ''B'' 80 200 1 24 500 100,
         mk_packet 1.2 ''A'' 1000 ''B'' 80 100 1 24 500 100,
         mk_packet 1.3 ''A'' 1000 ''B'' 80 300 1 24 500 100]) (''A'', 1000, ''B'', 80))
   = Some (1, 300)"
  by (simp add: rep_eval)

text \<open>
  Claim C3, as stated: after the payload segments with \<open>seq = 100, 200, 100, 300\<close> of 100
  bytes each, \<open>maxSeq\<close> is 400. In both trackers it is not.
\<close>

theorem max_seq_is_not_400:
  "map_option v4_max_seq (gs_flows (run_v4
        [mk_packet 1.0 ''A'' 1000 ''B'' 80 100 1 24 500 100,
         mk_packet 1.1 ''A'' 1000 ''B'' 80 200 1 24 500 100,
         mk_packet 1.2 ''A'' 1000 ''B'' 80 100 1 24 500 100,
         mk_packet 1.3 ''A'' 1000 ''B'' 80 300 1 24 500 100]) (''A'', 1000, ''B'', 80))
     \<noteq> Some 400
   \<and> map_option fm_max_seq (flows (analyze_pcap
        [mk_packet 1.0 ''A'' 1000 ''B'' 80 100 1 24 500 100,
         mk_packet 1.1 ''A'' 1000 ''B'' 80 200 1 24 500 100,
         mk_packet 1.2 ''A'' 1000 ''B'' 80 100 1 24 500 100,
         mk_packet 1.3 ''A'' 1000 ''B'' 80 300 1 24 500 100]) (''A'', 1000, ''B'', 80))
     \<noteq> Some 400"
  using v4_c3 rep_c3 by auto

text \<open>
  Claim C3, amended. On that flow both trackers report exactly 1 retransmission (the
  repeated \<open>seq = 100\<close>), the tracker of pcap\_analyzer\_v4.py reports 0 out-of-order
  events, and \<open>max_seq\<close> ends at 300: it is the maximum of the start sequence numbers of
  the data segments, the payload length is not added.
\<close>

theorem retransmission_exactness:
  "map_option (\<lambda>f. (v4_retransmissions f, v4_out_of_order f, v4_max_seq f))
     (gs_flows (run_v4
        [mk_packet 1.0 ''A'' 1000 ''B'' 80 100 1 24 500 100,
         mk_packet 1.1 ''A'' 1000 ''B'' 80 200 1 24 500 100,
         mk_packet 1.2 ''A'' 1000 ''B'' 80 100 1 24 500 100,
         mk_packet 1.3 ''A'' 1000 ''B'' 80 300 1 24 500 100]) (''A'', 1000, ''B'', 80))
     = Some (1, 0, 300)
   \<and> map_option (\<lambda>f. (fm_retrans f, fm_max_seq f))
     (flows (analyze_pcap
        [mk_packet 1.0 ''A'' 1000 ''B'' 80 100 1 24 500 100,
         mk_packet 1.1 ''A'' 1000 ''B'' 80 200 1 24 500 100,
         mk_packet 1.2 ''A'' 1000 ''B'' 80 100 1 24 500 100,
         mk_packet 1.3 ''A'' 1000 ''B'' 80 300 1 24 500 100]) (''A'', 1000, ''B'', 80))
     = Some (1, 300)
   \<and> v4_max_seq (AnomalyDetector_process flow tcp) =
       (if tcp_data_len tcp > 0 then max (v4_max_seq flow) (tcp_seq tcp) else v4_max_seq flow)
   \<and> fm_max_seq (retrans_detect fm tcp) =
       (if tcp_data_len tcp > 0 then max (fm_max_seq fm) (tcp_seq tcp) else fm_max_seq fm)"
  by (simp only: v4_c3 rep_c3 AnomalyDetector_max_seq retrans_detect_max_seq simp_thms)

section \<open>Pending acknowledgments\<close>

lemmas v5_eval = run_v5_def process_packet_v5_def get_stream_id_def StreamTracker_update_def
  count_v5_def flags_v5_def retrans_v5_def expected_ack_v5_def register_v5_def resolve_v5_def
  new_TrafficAnalyzer_def new_StreamTracker_def Let_def upd_flow_def setdefault_def
  mk_packet_def flag_eval

lemma rtt_match_unacked:
  "dd_get (unacked_packets (rtt_match st p)) Map.empty k =
     (if k = (ip_dst p, tcp_dport p, ip_src p, tcp_sport p) \<and> has_flag (tcp_flags p) TH_ACK
      then (dd_get (unacked_packets st) Map.empty k)(tcp_ack p := None)
      else dd_get (unacked_packets st) Map.empty k)"
  by (auto simp: rtt_match_def Let_def dd_get_def split: option.splits)

lemma resolve_v5_pending:
  "trk_pending_acks (resolve_v5 self p t) =
     (if has_flag (tcp_flags p) TH_ACK then (trk_pending_acks self)(tcp_ack p := None)
      else trk_pending_acks self)"
  by (auto simp: resolve_v5_def Let_def split: option.splits)

lemma rep_c5:
  "dd_get (unacked_packets (analyze_pcap
       [mk_packet 1.0 ''A'' 1000 ''B'' 80 100 1 24 500 50,
        mk_packet 1.01 ''A'' 1000 ''B'' 80 150 1 24 500 50,
        mk_packet 1.05 ''B'' 80 ''A'' 1000 1 200 16 500 0])) Map.empty (''A'', 1000, ''B'', 80) 150
     = Some 1.0"
  by (simp add: rep_eval)

lemma v5_c5:
  "map_option (\<lambda>trk. trk_pending_acks trk 150) (ta_streams (run_v5
       [mk_packet 1.0 ''A'' 1000 ''B'' 80 100 1 24 500 50,
        mk_packet 1.01 ''A'' 1000 ''B'' 80 150 1 24 500 50,
        mk_packet 1.05 ''B'' 80 ''A'' 1000 1 200 16 500 0]) ((''A'', 1000), (''B'', 80)))
     = Some (Some 1.0)"
  by (simp add: v5_eval)


lemma rtt_expect_unacked_at:
  "dd_get (unacked_packets (rtt_expect st p)) Map.empty k =
     (if k = (ip_src p, tcp_sport p, ip_dst p, tcp_dport p) \<and> tcp_data_len p > 0
      then (dd_get (unacked_packets st) Map.empty k)(tcp_seq p + tcp_data_len p \<mapsto> pkt_ts p)
      else dd_get (unacked_packets st) Map.empty k)"
  by (simp add: rtt_expect_def Let_def dd_get_def)

lemma analyze_step_unacked:
  "dd_get (unacked_packets (analyze_step st p)) Map.empty k =
     (let pending = dd_get (unacked_packets st) Map.empty k;
          after_match =
            (if k = (ip_dst p, tcp_dport p, ip_src p, tcp_sport p) \<and> has_flag (tcp_flags p) TH_ACK
             then pending(tcp_ack p := None) else pending)
      in if k = (ip_src p, tcp_sport p, ip_dst p, tcp_dport p) \<and> tcp_data_len p > 0
         then after_match(tcp_seq p + tcp_data_len p \<mapsto> pkt_ts p)
         else after_match)"
proof -
  let ?st1 = "st\<lparr> packet_count := packet_count st + 1,
               flows := (flows st)((ip_src p, tcp_sport p, ip_dst p, tcp_dport p) \<mapsto>
                  count_packet (dd_get (flows st) new_FlowMetrics
                     (ip_src p, tcp_sport p, ip_dst p, tcp_dport p)) p) \<rparr>"
  have 1: "unacked_packets (analyze_step st p) = unacked_packets (rtt_expect (rtt_match ?st1 p) p)"
    by (simp add: analyze_step_def Let_def)
  have 2: "unacked_packets ?st1 = unacked_packets st"
    by simp
  show ?thesis
    unfolding 1 rtt_expect_unacked_at rtt_match_unacked 2 Let_def ..
qed

lemma StreamTracker_update_pending:
  "trk_pending_acks (StreamTracker_update self p t d) =
     (let pending = trk_pending_acks self;
          registered = (if tcp_data_len p > 0 \<or> has_flag (tcp_flags p) TH_SYN
                        then pending(expected_ack_v5 p \<mapsto> t) else pending)
      in if has_flag (tcp_flags p) TH_ACK then registered(tcp_ack p := None) else registered)"
  by (simp add: StreamTracker_update_def resolve_v5_pending register_v5_def retrans_v5_def
        flags_v5_def count_v5_def Let_def)

lemmas v1_eval = run_continuous_rtt_def continuous_rtt_def match_ack_def store_sent_def
  direction_v1_def add_rtt_sample_def new_TCPFlow_def Let_def mk_packet_def flag_eval

lemma store_sent_other:
  "d' \<noteq> d \<Longrightarrow> tf_sent_seqs (store_sent flow d t p) d' = tf_sent_seqs flow d'"
  by (simp add: store_sent_def Let_def)

lemma match_ack_opposite:
  "tf_sent_seqs (match_ack flow d t p) (if d = 0 then 1 else 0) k =
     (if has_flag (tcp_flags p) TH_ACK \<and> 0 < tcp_ack p then
        (if k < tcp_ack p then None
         else if k = tcp_ack p \<and>
                 (case tf_sent_seqs flow (if d = 0 then 1 else 0) k of
                    None \<Rightarrow> False | Some sent_ts \<Rightarrow> (t - sent_ts) * 1000 > 0)
         then None
         else tf_sent_seqs flow (if d = 0 then 1 else 0) k)
      else tf_sent_seqs flow (if d = 0 then 1 else 0) k)"
  by (auto simp: match_ack_def Let_def add_rtt_sample_def split: option.splits)

lemma continuous_rtt_opposite:
  "tf_sent_seqs (continuous_rtt flow p) (if direction_v1 p = 0 then 1 else 0) k =
     (if has_flag (tcp_flags p) TH_ACK \<and> 0 < tcp_ack p then
        (if k < tcp_ack p then None
         else if k = tcp_ack p \<and>
                 (case tf_sent_seqs flow (if direction_v1 p = 0 then 1 else 0) k of
                    None \<Rightarrow> False | Some sent_ts \<Rightarrow> (pkt_ts p - sent_ts) * 1000 > 0)
         then None
         else tf_sent_seqs flow (if direction_v1 p = 0 then 1 else 0) k)
      else tf_sent_seqs flow (if direction_v1 p = 0 then 1 else 0) k)"
proof -
  have o: "tf_sent_seqs (store_sent flow (direction_v1 p) (pkt_ts p) p)
             (if direction_v1 p = 0 then 1 else 0)
           = tf_sent_seqs flow (if direction_v1 p = 0 then 1 else 0)"
    by (rule store_sent_other) simp
  show ?thesis
    unfolding continuous_rtt_def match_ack_opposite o ..
qed

lemma v1_c5_before:
  "tf_sent_seqs (run_continuous_rtt
       [mk_packet 1.0 ''A'' 1000 ''B'' 80 100 1 24 500 50,
        mk_packet 1.01 ''A'' 1000 ''B'' 80 150 1 24 500 50]) 0 150 = Some 1.0"
  by (simp add: v1_eval)

lemma v1_c5_after:
  "tf_sent_seqs (run_continuous_rtt
       [mk_packet 1.0 ''A'' 1000 ''B'' 80 100 1 24 500 50,
        mk_packet 1.01 ''A'' 1000 ''B'' 80 150 1 24 500 50,
        mk_packet 1.05 ''B'' 80 ''A'' 1000 1 200 16 500 0]) 0 150 = None"
  by (simp add: v1_eval)

lemma v5_c5_entry:
  "trk_pending_acks (dd_get (ta_streams (run_v5
       [mk_packet 1.0 ''A'' 1000 ''B'' 80 100 1 24 500 50,
        mk_packet 1.01 ''A'' 1000 ''B'' 80 150 1 24 500 50,
        mk_packet 1.05 ''B'' 80 ''A'' 1000 1 200 16 500 0]))
          (new_StreamTracker ((''A'', 1000), (''B'', 80))) ((''A'', 1000), (''B'', 80))) 150
     = Some 1.0"
  using v5_c5 by (auto simp: dd_get_def)

text \<open>
  Claim C5. An ACK purges from the pending map of the opposite direction every entry whose
  key is below its acknowledgment number. \<open>_analyze_tcp\<close> of pcap\_analyzer.py does so, for
  every ACK with a positive acknowledgment number (lines 300 to 306): afterwards the map
  of the opposite direction has no key below that number, the key equal to it is gone
  when it gave a positive sample, and the keys above it are as before.
  \<open>analyze_pcap\<close> of analyze\_and\_generate\_report.py and \<open>StreamTracker.update\<close> of
  pcap\_analyzer\_v5.py remove the one entry whose key equals the acknowledgment number and
  nothing else. Two data segments expect the acknowledgments 150 and 200 and the
  cumulative ACK 200 follows: pcap\_analyzer.py, which held the entry 150 before the ACK,
  has purged it; in the other two scripts it is still pending at the end of the run.
\<close>

theorem cumulative_ack_purge:
  "tf_sent_seqs (continuous_rtt flow q) (if direction_v1 q = 0 then 1 else 0) n =
     (if has_flag (tcp_flags q) TH_ACK \<and> 0 < tcp_ack q then
        (if n < tcp_ack q then None
         else if n = tcp_ack q \<and>
                 (case tf_sent_seqs flow (if direction_v1 q = 0 then 1 else 0) n of
                    None \<Rightarrow> False | Some sent_ts \<Rightarrow> (pkt_ts q - sent_ts) * 1000 > 0)
         then None
         else tf_sent_seqs flow (if direction_v1 q = 0 then 1 else 0) n)
      else tf_sent_seqs flow (if direction_v1 q = 0 then 1 else 0) n)
   \<and> dd_get (unacked_packets (analyze_step st p)) Map.empty k =
     (let pending = dd_get (unacked_packets st) Map.empty k;
          after_match =
            (if k = (ip_dst p, tcp_dport p, ip_src p, tcp_sport p) \<and> has_flag (tcp_flags p) TH_ACK
             then pending(tcp_ack p := None) else pending)
      in if k = (ip_src p, tcp_sport p, ip_dst p, tcp_dport p) \<and> tcp_data_len p > 0
         then after_match(tcp_seq p + tcp_data_len p \<mapsto> pkt_ts p)
         else after_match)
   \<and> trk_pending_acks (StreamTracker_update self p t d) =
     (let pending = trk_pending_acks self;
          registered = (if tcp_data_len p > 0 \<or> has_flag (tcp_flags p) TH_SYN
                        then pending(expected_ack_v5 p \<mapsto> t) else pending)
      in if has_flag (tcp_flags p) TH_ACK then registered(tcp_ack p := None) else registered)
   \<and> tf_sent_seqs (run_continuous_rtt
       [mk_packet 1.0 ''A'' 1000 ''B'' 80 100 1 24 500 50,
        mk_packet 1.01 ''A'' 1000 ''B'' 80 150 1 24 500 50]) 0 150 = Some 1.0
   \<and> tf_sent_seqs (run_continuous_rtt
       [mk_packet 1.0 ''A'' 1000 ''B'' 80 100 1 24 500 50,
        mk_packet 1.01 ''A'' 1000 ''B'' 80 150 1 24 500 50,
        mk_packet 1.05 ''B'' 80 ''A'' 1000 1 200 16 500 0]) 0 150 = None
   \<and> dd_get (unacked_packets (analyze_pcap
       [mk_packet 1.0 ''A'' 1000 ''B'' 80 100 1 24 500 50,
        mk_packet 1.01 ''A'' 1000 ''B'' 80 150 1 24 500 50,
        mk_packet 1.05 ''B'' 80 ''A'' 1000 1 200 16 500 0])) Map.empty (''A'', 1000, ''B'', 80) 150
     = Some 1.0
   \<and> trk_pending_acks (dd_get (ta_streams (run_v5
       [mk_packet 1.0 ''A'' 1000 ''B'' 80 100 1 24 500 50,
        mk_packet 1.01 ''A'' 1000 ''B'' 80 150 1 24 500 50,
        mk_packet 1.05 ''B'' 80 ''A'' 1000 1 200 16 500 0]))
          (new_StreamTracker ((''A'', 1000), (''B'', 80))) ((''A'', 1000), (''B'', 80))) 150
     = Some 1.0
   \<and> (150 :: nat) < 200"
proof (intro conjI)
  show "(150 :: nat) < 200" by simp
qed (rule continuous_rtt_opposite analyze_step_unacked StreamTracker_update_pending
       v1_c5_before v1_c5_after rep_c5 v5_c5_entry)+

section \<open>Canonical flow keys and the session count\<close>

lemma session_key_swap: "session_key (a, ap, b, bp) = session_key (b, bp, a, ap)"
  by (auto simp: session_key_def Let_def)

lemma session_key_ordered:
  "session_key k = (a, ap, b, bp) \<Longrightarrow> (a, ap) \<le> (b, bp)"
  by (cases k) (auto simp: session_key_def Let_def split: if_splits)

lemma endpoints_of_session_key: "endpoints_of (session_key k) = endpoints_of k"
  by (cases k) (auto simp: session_key_def endpoints_of_def Let_def)

lemma ordered_pair_of_set:
  fixes x y x' y' :: "'a :: linorder"
  assumes "{x, y} = {x', y'}" "x \<le> y" "x' \<le> y'"
  shows "x = x' \<and> y = y'"
  using assms by (auto simp: doubleton_eq_iff)

lemma inj_on_endpoints_of: "inj_on endpoints_of (session_key ` ks)"
proof (rule inj_onI)
  fix x y assume x: "x \<in> session_key ` ks" and y: "y \<in> session_key ` ks"
    and e: "endpoints_of x = endpoints_of y"
  obtain a ap b bp where xe: "x = (a, ap, b, bp)" by (cases x) auto
  obtain c cp d dp where ye: "y = (c, cp, d, dp)" by (cases y) auto
  from x xe have 1: "(a, ap) \<le> (b, bp)" by (auto dest: session_key_ordered[OF sym])
  from y ye have 2: "(c, cp) \<le> (d, dp)" by (auto dest: session_key_ordered[OF sym])
  from e xe ye have "{(a, ap), (b, bp)} = {(c, cp), (d, dp)}" by (simp add: endpoints_of_def)
  from ordered_pair_of_set[OF this 1 2] show "x = y" by (simp add: xe ye)
qed

lemma total_tcp_sessions_card:
  "total_tcp_sessions ks = card (endpoints_of ` ks)"
proof -
  have "endpoints_of ` ks = endpoints_of ` (session_key ` ks)"
    by (simp add: image_image endpoints_of_session_key)
  then show ?thesis
    by (simp add: total_tcp_sessions_def unique_sessions_def card_image[OF inj_on_endpoints_of])
qed


lemma get_stream_id_ordered: "fst (fst (get_stream_id p)) \<le> snd (fst (get_stream_id p))"
  by (auto simp: get_stream_id_def Let_def)

lemma get_stream_id_endpoints:
  "{fst (fst (get_stream_id p)), snd (fst (get_stream_id p))} = packet_endpoints p"
  by (auto simp: get_stream_id_def Let_def packet_endpoints_def)

lemma get_stream_id_reverse: "fst (get_stream_id (reverse_packet p)) = fst (get_stream_id p)"
  by (auto simp: get_stream_id_def Let_def reverse_packet_def)

lemma get_stream_id_direction:
  "snd (get_stream_id p) = (if (ip_dst p, tcp_dport p) < (ip_src p, tcp_sport p) then 1 else 0)"
  by (auto simp: get_stream_id_def Let_def)

lemma dom_upd_flow: "dom (upd_flow m k f) = dom m"
  by (auto simp: upd_flow_def split: option.splits)

lemma dom_setdefault: "dom (setdefault m k d) = insert k (dom m)"
  by (auto simp: setdefault_def)

lemma dom_process_packet_v5:
  "dom (ta_streams (process_packet_v5 st p)) = insert (fst (get_stream_id p)) (dom (ta_streams st))"
proof -
  obtain sid d where g: "get_stream_id p = (sid, d)" by (cases "get_stream_id p") auto
  show ?thesis
    by (simp add: process_packet_v5_def Let_def g dom_upd_flow dom_setdefault)
qed

lemma dom_foldl_v5:
  "dom (ta_streams (foldl process_packet_v5 st ps)) =
     dom (ta_streams st) \<union> (\<lambda>p. fst (get_stream_id p)) ` set ps"
  by (induction ps arbitrary: st) (auto simp: dom_process_packet_v5)

lemma dom_run_v5: "dom (ta_streams (run_v5 ps)) = (\<lambda>p. fst (get_stream_id p)) ` set ps"
  by (simp add: run_v5_def dom_foldl_v5 new_TrafficAnalyzer_def)

lemma streams_card:
  "card (dom (ta_streams (run_v5 ps))) = card (packet_endpoints ` set ps)"
proof -
  let ?u = "\<lambda>sid :: stream_id. {fst sid, snd sid}"
  let ?S = "(\<lambda>p. fst (get_stream_id p)) ` set ps"
  have inj: "inj_on ?u ?S"
  proof (rule inj_onI)
    fix x y assume "x \<in> ?S" "y \<in> ?S" and e: "?u x = ?u y"
    then have "fst x \<le> snd x" "fst y \<le> snd y" using get_stream_id_ordered by auto
    from ordered_pair_of_set[OF e this] show "x = y" by (simp add: prod_eq_iff)
  qed
  have "?u ` ?S = packet_endpoints ` set ps"
    by (simp add: image_image get_stream_id_endpoints)
  then have "card (packet_endpoints ` set ps) = card ?S"
    using card_image[OF inj] by simp
  then show ?thesis by (simp add: dom_run_v5)
qed

text \<open>
  Claim C2. Both canonicalisations are symmetric in the direction: the session key of
  \<open>main\<close> in analyze\_and\_generate\_report.py gives the two directional 4-tuples of a
  connection the same key, and \<open>get_stream_id\<close> of pcap\_analyzer\_v5.py gives a segment and
  its reverse the same stream id, with a direction that depends only on which endpoint
  sends. The session count over any set of directional flow keys is the number of distinct
  unordered endpoint pairs among them, and so is the number of streams pcap\_analyzer\_v5.py
  holds after any capture.
\<close>

theorem flow_key_canonical:
  "session_key (a, ap, b, bp) = session_key (b, bp, a, ap)
   \<and> fst (get_stream_id (reverse_packet p)) = fst (get_stream_id p)
   \<and> snd (get_stream_id p) = (if (ip_dst p, tcp_dport p) < (ip_src p, tcp_sport p) then 1 else 0)
   \<and> total_tcp_sessions ks = card (endpoints_of ` ks)
   \<and> card (dom (ta_streams (run_v5 ps))) = card (packet_endpoints ` set ps)"
  using session_key_swap get_stream_id_reverse get_stream_id_direction
    total_tcp_sessions_card streams_card
  by blast

text \<open>
  Two connections seen in both directions: four directional flows, two sessions.
\<close>

theorem flow_key_canonical_witness:
  "total_tcp_sessions {(''A'', 1000, ''B'', 80), (''B'', 80, ''A'', 1000),
                       (''A'', 1001, ''B'', 80), (''B'', 80, ''A'', 1001)} = 2
   \<and> card (dom (ta_streams (run_v5
         [mk_packet 1.0 ''A'' 1000 ''B'' 80 100 1 24 500 50,
          mk_packet 1.1 ''B'' 80 ''A'' 1000 1 150 16 500 0,
          mk_packet 1.2 ''A'' 1001 ''B'' 80 100 1 24 500 50,
          mk_packet 1.3 ''B'' 80 ''A'' 1001 1 150 16 500 0]))) = 2"
proof -
  let ?ks = "{(''A'', 1000::nat, ''B'', 80::nat), (''B'', 80, ''A'', 1000),
              (''A'', 1001, ''B'', 80), (''B'', 80, ''A'', 1001)}"
  let ?ps = "[mk_packet 1.0 ''A'' 1000 ''B'' 80 100 1 24 500 50,
          mk_packet 1.1 ''B'' 80 ''A'' 1000 1 150 16 500 0,
          mk_packet 1.2 ''A'' 1001 ''B'' 80 100 1 24 500 50,
          mk_packet 1.3 ''B'' 80 ''A'' 1001 1 150 16 500 0]"
  have e: "endpoints_of ` ?ks = {{(''A'', 1000), (''B'', 80)}, {(''A'', 1001), (''B'', 80)}}"
    by (auto simp: endpoints_of_def)
  have pe: "packet_endpoints ` set ?ps = {{(''A'', 1000), (''B'', 80)}, {(''A'', 1001), (''B'', 80)}}"
    by (auto simp: packet_endpoints_def mk_packet_def)
  have c: "card {{(''A'', 1000::nat), (''B'', 80::nat)}, {(''A'', 1001), (''B'', 80)}} = 2"
    by (simp add: doubleton_eq_iff)
  from flow_key_canonical[of _ _ _ _ _ ?ks ?ps] have
    "total_tcp_sessions ?ks = card (endpoints_of ` ?ks)"
    "card (dom (ta_streams (run_v5 ?ps))) = card (packet_endpoints ` set ?ps)"
    by blast+
  then show ?thesis unfolding e pe c by blast
qed

section \<open>Fast and timeout retransmissions\<close>

lemma retrans_v9_classify:
  "v9_seq_tracker flow (tcp_seq tcp) = Some original_ts \<Longrightarrow> tcp_data_len tcp > 0 \<Longrightarrow>
   retrans_v9 flow t tcp =
     (if t - original_ts > max (MIN_RTO_MS / 1000)
           (2 * (if avg_rtt_ms flow / 1000 = 0 then 0.1 else avg_rtt_ms flow / 1000))
      then flow\<lparr> v9_retrans_rto := v9_retrans_rto flow + 1 \<rparr>
      else flow\<lparr> v9_retrans_fast := v9_retrans_fast flow + 1 \<rparr>)"
  by (auto simp: retrans_v9_def Let_def RTO_THRESHOLD_MULTIPLIER_def max_def)

lemma handshake_v9_fields [simp]:
  "v9_seq_tracker (handshake_v9 f t p) = v9_seq_tracker f"
  "v9_retrans_rto (handshake_v9 f t p) = v9_retrans_rto f"
  "v9_retrans_fast (handshake_v9 f t p) = v9_retrans_fast f"
  "avg_rtt_ms (handshake_v9 f t p) = avg_rtt_ms f"
  by (simp_all add: handshake_v9_def Let_def avg_rtt_ms_def)

lemma flow_control_v9_fields [simp]:
  "v9_retrans_rto (flow_control_v9 f p) = v9_retrans_rto f"
  "v9_retrans_fast (flow_control_v9 f p) = v9_retrans_fast f"
  by (simp_all add: flow_control_v9_def)

lemma analyze_packet_v9_classify:
  assumes "v9_seq_tracker flow (tcp_seq tcp) = Some original_ts" "tcp_data_len tcp > 0"
  shows "v9_retrans_rto (analyze_packet_v9 flow t tcp) =
           v9_retrans_rto flow +
             (if t - original_ts > max (MIN_RTO_MS / 1000)
                   (2 * (if avg_rtt_ms flow / 1000 = 0 then 0.1 else avg_rtt_ms flow / 1000))
              then 1 else 0)"
    and "v9_retrans_fast (analyze_packet_v9 flow t tcp) =
           v9_retrans_fast flow +
             (if t - original_ts > max (MIN_RTO_MS / 1000)
                   (2 * (if avg_rtt_ms flow / 1000 = 0 then 0.1 else avg_rtt_ms flow / 1000))
              then 0 else 1)"
proof -
  have s: "v9_seq_tracker (handshake_v9 flow t tcp) (tcp_seq tcp) = Some original_ts"
    using assms(1) by simp
  show "v9_retrans_rto (analyze_packet_v9 flow t tcp) =
           v9_retrans_rto flow +
             (if t - original_ts > max (MIN_RTO_MS / 1000)
                   (2 * (if avg_rtt_ms flow / 1000 = 0 then 0.1 else avg_rtt_ms flow / 1000))
              then 1 else 0)"
    by (simp add: analyze_packet_v9_def retrans_v9_classify[OF s assms(2)])
  show "v9_retrans_fast (analyze_packet_v9 flow t tcp) =
           v9_retrans_fast flow +
             (if t - original_ts > max (MIN_RTO_MS / 1000)
                   (2 * (if avg_rtt_ms flow / 1000 = 0 then 0.1 else avg_rtt_ms flow / 1000))
              then 0 else 1)"
    by (simp add: analyze_packet_v9_def retrans_v9_classify[OF s assms(2)])
qed

lemma retrans_detect_counts:
  assumes "tcp_seq p \<in> fm_seen_seqs fm" "tcp_data_len p > 0"
  shows "fm_retrans (retrans_detect fm p) =
           fm_retrans fm + (if tcp_data_len p \<le> 1 \<and> has_flag (tcp_flags p) TH_ACK then 0 else 1)"
    and "fm_rto_cnt (retrans_detect fm p) =
           fm_rto_cnt fm +
             (if \<not> (tcp_data_len p \<le> 1 \<and> has_flag (tcp_flags p) TH_ACK) \<and>
                 length (fm_timestamps fm) > 1 \<and>
                 pkt_ts p - fm_timestamps fm ! (length (fm_timestamps fm) - 2) > RTO_HEURISTIC_THRESH
              then 1 else 0)"
  using assms by (auto simp: retrans_detect_def Let_def)

lemma retrans_v10_counted:
  assumes "tcp_data_len tcp > 0" "sm_next_seq flow d \<noteq> 0" "tcp_seq tcp < sm_next_seq flow d"
  shows "sm_retrans_rto (retrans_v10 flow d tcp) + sm_retrans_fast (retrans_v10 flow d tcp) =
           sm_retrans_rto flow + sm_retrans_fast flow + 1"
  using assms by (auto simp: retrans_v10_def Let_def)

lemma v9_scenario_rto:
  "(\<lambda>f. (v9_retrans_rto f, v9_retrans_fast f, v9_rtt_samples f)) (run_flow_v9
     [mk_packet 1.0 ''A'' 1000 ''B'' 80 100 1 24 500 100,
      mk_packet 1.9 ''A'' 1000 ''B'' 80 200 1 24 500 100,
      mk_packet 2.0 ''A'' 1000 ''B'' 80 100 1 24 500 100]) = (1, 0, [])"
  by (simp add: v9_eval)

lemma v9_scenario_fast:
  "(\<lambda>f. (v9_retrans_rto f, v9_retrans_fast f, v9_rtt_samples f)) (run_flow_v9
     [mk_packet 1.0 ''A'' 1000 ''B'' 80 200 1 24 500 100,
      mk_packet 1.9 ''A'' 1000 ''B'' 80 100 1 24 500 100,
      mk_packet 2.0 ''A'' 1000 ''B'' 80 100 1 24 500 100]) = (0, 1, [])"
  by (simp add: v9_eval)

text \<open>
  Claim C6, as stated. In the first capture below the segment with \<open>seq = 100\<close> is sent at
  1.0 s and again at 2.0 s, with another data segment of the flow in between at 1.9 s, and
  no RTT sample exists. The time since the last observation on the flow is 0.1 s, which
  the rule of the claim (with the floor of 0.2 s and the fallback of 0.1 s that
  pcap\_analyzer\_v9.py uses) classifies as a fast retransmission; the code counts a
  timeout. In the second capture the time since the last observation is the same 0.1 s
  and the code counts a fast retransmission: the class is not a function of that delay.
\<close>

theorem timeout_rule_differs_from_claim:
  "v9_retrans_rto (run_flow_v9
     [mk_packet 1.0 ''A'' 1000 ''B'' 80 100 1 24 500 100,
      mk_packet 1.9 ''A'' 1000 ''B'' 80 200 1 24 500 100,
      mk_packet 2.0 ''A'' 1000 ''B'' 80 100 1 24 500 100]) = 1
   \<and> \<not> spec_is_timeout (MIN_RTO_MS / 1000) 0.1
         (v9_rtt_samples (run_flow_v9
           [mk_packet 1.0 ''A'' 1000 ''B'' 80 100 1 24 500 100,
            mk_packet 1.9 ''A'' 1000 ''B'' 80 200 1 24 500 100,
            mk_packet 2.0 ''A'' 1000 ''B'' 80 100 1 24 500 100])) (2.0 - 1.9)
   \<and> v9_retrans_fast (run_flow_v9
     [mk_packet 1.0 ''A'' 1000 ''B'' 80 200 1 24 500 100,
      mk_packet 1.9 ''A'' 1000 ''B'' 80 100 1 24 500 100,
      mk_packet 2.0 ''A'' 1000 ''B'' 80 100 1 24 500 100]) = 1"
proof -
  have "\<not> spec_is_timeout (MIN_RTO_MS / 1000) 0.1 [] (2.0 - 1.9)"
    by (simp add: spec_is_timeout_def MIN_RTO_MS_def)
  with v9_scenario_rto v9_scenario_fast show ?thesis by simp
qed

text \<open>
  Claim C6, amended. In pcap\_analyzer\_v9.py a retransmission (a payload segment whose
  start sequence number is in \<open>seq_tracker\<close>) is a timeout exactly when the time since that
  sequence number was first seen exceeds \<open>max(0.2, 2 * baseline)\<close>, where the baseline is
  the average RTT of the flow when that is not 0 and 0.1 s otherwise; else it is a fast
  retransmission. In analyze\_and\_generate\_report.py a payload segment whose start
  sequence number is in \<open>seen_seqs\<close> is counted in \<open>retrans\<close>, unless it has at most one
  byte of payload and the ACK flag (the keep-alive filter), which is counted nowhere; a
  counted one is also counted in \<open>rto_cnt\<close> exactly when the flow has an earlier segment
  and that previous segment of the directional flow is more than \<open>RTO_HEURISTIC_THRESH\<close> =
  1.0 s old (\<open>fm\<close> is the flow after the segment itself was counted, as in the loop body).
  In pcap\_analyzer\_v10.py a payload segment below the next expected sequence number of its
  direction, when that is not 0, is counted once, as a timeout or as a fast retransmission.
\<close>

theorem retransmission_classification:
  "(v9_seq_tracker flow (tcp_seq tcp) = Some original_ts \<and> tcp_data_len tcp > 0 \<longrightarrow>
      v9_retrans_rto (analyze_packet_v9 flow t tcp) =
        v9_retrans_rto flow +
          (if t - original_ts > max (MIN_RTO_MS / 1000)
                (2 * (if avg_rtt_ms flow / 1000 = 0 then 0.1 else avg_rtt_ms flow / 1000))
           then 1 else 0)
    \<and> v9_retrans_fast (analyze_packet_v9 flow t tcp) =
        v9_retrans_fast flow +
          (if t - original_ts > max (MIN_RTO_MS / 1000)
                (2 * (if avg_rtt_ms flow / 1000 = 0 then 0.1 else avg_rtt_ms flow / 1000))
           then 0 else 1))
   \<and> (tcp_seq tcp \<in> fm_seen_seqs fm \<and> tcp_data_len tcp > 0 \<longrightarrow>
      fm_retrans (retrans_detect fm tcp) =
        fm_retrans fm + (if tcp_data_len tcp \<le> 1 \<and> has_flag (tcp_flags tcp) TH_ACK then 0 else 1)
    \<and> fm_rto_cnt (retrans_detect fm tcp) =
        fm_rto_cnt fm +
          (if \<not> (tcp_data_len tcp \<le> 1 \<and> has_flag (tcp_flags tcp) TH_ACK) \<and>
              length (fm_timestamps fm) > 1 \<and>
              pkt_ts tcp - fm_timestamps fm ! (length (fm_timestamps fm) - 2) > RTO_HEURISTIC_THRESH
           then 1 else 0))
   \<and> (tcp_data_len tcp > 0 \<and> sm_next_seq sm d \<noteq> 0 \<and> tcp_seq tcp < sm_next_seq sm d \<longrightarrow>
      sm_retrans_rto (retrans_v10 sm d tcp) + sm_retrans_fast (retrans_v10 sm d tcp) =
        sm_retrans_rto sm + sm_retrans_fast sm + 1)"
proof (intro conjI impI)
  assume "v9_seq_tracker flow (tcp_seq tcp) = Some original_ts \<and> tcp_data_len tcp > 0"
  then have a: "v9_seq_tracker flow (tcp_seq tcp) = Some original_ts" "tcp_data_len tcp > 0"
    by simp_all
  show "v9_retrans_rto (analyze_packet_v9 flow t tcp) =
        v9_retrans_rto flow +
          (if t - original_ts > max (MIN_RTO_MS / 1000)
                (2 * (if avg_rtt_ms flow / 1000 = 0 then 0.1 else avg_rtt_ms flow / 1000))
           then 1 else 0)"
    by (rule analyze_packet_v9_classify(1)[OF a])
  show "v9_retrans_fast (analyze_packet_v9 flow t tcp) =
        v9_retrans_fast flow +
          (if t - original_ts > max (MIN_RTO_MS / 1000)
                (2 * (if avg_rtt_ms flow / 1000 = 0 then 0.1 else avg_rtt_ms flow / 1000))
           then 0 else 1)"
    by (rule analyze_packet_v9_classify(2)[OF a])
next
  assume "tcp_seq tcp \<in> fm_seen_seqs fm \<and> tcp_data_len tcp > 0"
  then have b: "tcp_seq tcp \<in> fm_seen_seqs fm" "tcp_data_len tcp > 0"
    by simp_all
  show "fm_retrans (retrans_detect fm tcp) =
        fm_retrans fm + (if tcp_data_len tcp \<le> 1 \<and> has_flag (tcp_flags tcp) TH_ACK then 0 else 1)"
    by (rule retrans_detect_counts(1)[OF b])
  show "fm_rto_cnt (retrans_detect fm tcp) =
        fm_rto_cnt fm +
          (if \<not> (tcp_data_len tcp \<le> 1 \<and> has_flag (tcp_flags tcp) TH_ACK) \<and>
              length (fm_timestamps fm) > 1 \<and>
              pkt_ts tcp - fm_timestamps fm ! (length (fm_timestamps fm) - 2) > RTO_HEURISTIC_THRESH
           then 1 else 0)"
    by (rule retrans_detect_counts(2)[OF b])
next
  assume "tcp_data_len tcp > 0 \<and> sm_next_seq sm d \<noteq> 0 \<and> tcp_seq tcp < sm_next_seq sm d"
  then have c: "tcp_data_len tcp > 0" "sm_next_seq sm d \<noteq> 0" "tcp_seq tcp < sm_next_seq sm d"
    by simp_all
  show "sm_retrans_rto (retrans_v10 sm d tcp) + sm_retrans_fast (retrans_v10 sm d tcp) =
        sm_retrans_rto sm + sm_retrans_fast sm + 1"
    by (rule retrans_v10_counted[OF c])
qed

text \<open>
  A copy of the 100-byte segment with \<open>seq = 100\<close>, two seconds after the first: a timeout
  in pcap\_analyzer\_v9.py, counted in \<open>retrans\<close> and in \<open>rto_cnt\<close> by
  analyze\_and\_generate\_report.py, counted once by pcap\_analyzer\_v10.py. A repeated
  one-byte segment with the ACK flag is counted in neither \<open>retrans\<close> nor \<open>rto_cnt\<close>.
\<close>

theorem retransmission_classification_witness:
  "v9_retrans_rto (analyze_packet_v9
       (new_FlowMetrics_v9\<lparr> v9_packet_count := 2, v9_start_ts := 1, v9_end_ts := 3,
                            v9_seq_tracker := [100 \<mapsto> 1] \<rparr>) 3
       (mk_packet 3 ''A'' 1000 ''B'' 80 100 1 24 500 100)) = 1
   \<and> fm_retrans (retrans_detect
       (new_FlowMetrics\<lparr> fm_count := 2, fm_timestamps := [1, 3], fm_seen_seqs := {100} \<rparr>)
       (mk_packet 3 ''A'' 1000 ''B'' 80 100 1 24 500 100)) = 1
   \<and> fm_rto_cnt (retrans_detect
       (new_FlowMetrics\<lparr> fm_count := 2, fm_timestamps := [1, 3], fm_seen_seqs := {100} \<rparr>)
       (mk_packet 3 ''A'' 1000 ''B'' 80 100 1 24 500 100)) = 1
   \<and> fm_retrans (retrans_detect
       (new_FlowMetrics\<lparr> fm_count := 2, fm_timestamps := [1, 3], fm_seen_seqs := {100} \<rparr>)
       (mk_packet 3 ''A'' 1000 ''B'' 80 100 1 16 500 1)) = 0
   \<and> fm_rto_cnt (retrans_detect
       (new_FlowMetrics\<lparr> fm_count := 2, fm_timestamps := [1, 3], fm_seen_seqs := {100} \<rparr>)
       (mk_packet 3 ''A'' 1000 ''B'' 80 100 1 16 500 1)) = 0
   \<and> sm_retrans_rto (retrans_v10
       ((new_StreamMetrics 1)\<lparr> sm_start_ts := 1, sm_rtt_samples := [50],
                               sm_next_seq := (\<lambda>_. 0)(0 := 200) \<rparr>) 0
       (mk_packet 3 ''A'' 1000 ''B'' 80 100 1 24 500 100))
     + sm_retrans_fast (retrans_v10
       ((new_StreamMetrics 1)\<lparr> sm_start_ts := 1, sm_rtt_samples := [50],
                               sm_next_seq := (\<lambda>_. 0)(0 := 200) \<rparr>) 0
       (mk_packet 3 ''A'' 1000 ''B'' 80 100 1 24 500 100)) = 1"
proof -
  let ?p = "mk_packet 3 ''A'' 1000 ''B'' 80 100 1 24 500 100"
  let ?ka = "mk_packet 3 ''A'' 1000 ''B'' 80 100 1 16 500 1"
  let ?f9 = "new_FlowMetrics_v9\<lparr> v9_packet_count := 2, v9_start_ts := 1, v9_end_ts := 3,
                            v9_seq_tracker := [100 \<mapsto> 1] \<rparr>"
  let ?fm = "new_FlowMetrics\<lparr> fm_count := 2, fm_timestamps := [1, 3], fm_seen_seqs := {100} \<rparr>"
  let ?sm = "(new_StreamMetrics 1)\<lparr> sm_start_ts := 1, sm_rtt_samples := [50],
                               sm_next_seq := (\<lambda>_. 0)(0 := 200) \<rparr>"
  have h9: "v9_seq_tracker ?f9 (tcp_seq ?p) = Some 1 \<and> tcp_data_len ?p > 0"
    by (simp add: mk_packet_def)
  have hr: "tcp_seq ?p \<in> fm_seen_seqs ?fm \<and> tcp_data_len ?p > 0"
    by (simp add: mk_packet_def)
  have hk: "tcp_seq ?ka \<in> fm_seen_seqs ?fm \<and> tcp_data_len ?ka > 0"
    by (simp add: mk_packet_def)
  have h10: "tcp_data_len ?p > 0 \<and> sm_next_seq ?sm 0 \<noteq> 0 \<and> tcp_seq ?p < sm_next_seq ?sm 0"
    by (simp add: mk_packet_def)
  note T = retransmission_classification[where flow = ?f9 and tcp = ?p and original_ts = 1
      and t = 3 and fm = ?fm and sm = ?sm and d = 0]
  note K = retransmission_classification[where tcp = ?ka and fm = ?fm]
  from T h9 have 1: "v9_retrans_rto (analyze_packet_v9 ?f9 3 ?p) =
        v9_retrans_rto ?f9 +
          (if 3 - 1 > max (MIN_RTO_MS / 1000)
                (2 * (if avg_rtt_ms ?f9 / 1000 = 0 then 0.1 else avg_rtt_ms ?f9 / 1000))
           then 1 else 0)"
    by blast
  from T hr have 2: "fm_retrans (retrans_detect ?fm ?p) =
        fm_retrans ?fm + (if tcp_data_len ?p \<le> 1 \<and> has_flag (tcp_flags ?p) TH_ACK then 0 else 1)"
    and 3: "fm_rto_cnt (retrans_detect ?fm ?p) =
        fm_rto_cnt ?fm +
          (if \<not> (tcp_data_len ?p \<le> 1 \<and> has_flag (tcp_flags ?p) TH_ACK) \<and>
              length (fm_timestamps ?fm) > 1 \<and>
              pkt_ts ?p - fm_timestamps ?fm ! (length (fm_timestamps ?fm) - 2) > RTO_HEURISTIC_THRESH
           then 1 else 0)"
    by blast+
  from K hk have 4: "fm_retrans (retrans_detect ?fm ?ka) =
        fm_retrans ?fm + (if tcp_data_len ?ka \<le> 1 \<and> has_flag (tcp_flags ?ka) TH_ACK then 0 else 1)"
    and 5: "fm_rto_cnt (retrans_detect ?fm ?ka) =
        fm_rto_cnt ?fm +
          (if \<not> (tcp_data_len ?ka \<le> 1 \<and> has_flag (tcp_flags ?ka) TH_ACK) \<and>
              length (fm_timestamps ?fm) > 1 \<and>
              pkt_ts ?ka - fm_timestamps ?fm ! (length (fm_timestamps ?fm) - 2) > RTO_HEURISTIC_THRESH
           then 1 else 0)"
    by blast+
  from T h10 have 6: "sm_retrans_rto (retrans_v10 ?sm 0 ?p) + sm_retrans_fast (retrans_v10 ?sm 0 ?p) =
        sm_retrans_rto ?sm + sm_retrans_fast ?sm + 1"
    by blast
  have r1: "v9_retrans_rto (analyze_packet_v9 ?f9 3 ?p) = 1"
    unfolding 1 by (simp add: new_FlowMetrics_v9_def avg_rtt_ms_def MIN_RTO_MS_def)
  have r2: "fm_retrans (retrans_detect ?fm ?p) = 1"
    unfolding 2 by (simp add: new_FlowMetrics_def mk_packet_def)
  have r3: "fm_rto_cnt (retrans_detect ?fm ?p) = 1"
    unfolding 3 by (simp add: new_FlowMetrics_def RTO_HEURISTIC_THRESH_def mk_packet_def)
  have r4: "fm_retrans (retrans_detect ?fm ?ka) = 0"
    unfolding 4 by (simp add: new_FlowMetrics_def mk_packet_def flag_eval)
  have r5: "fm_rto_cnt (retrans_detect ?fm ?ka) = 0"
    unfolding 5 by (simp add: new_FlowMetrics_def mk_packet_def flag_eval)
  have r6: "sm_retrans_rto (retrans_v10 ?sm 0 ?p) + sm_retrans_fast (retrans_v10 ?sm 0 ?p) = 1"
    unfolding 6 by (simp add: new_StreamMetrics_def)
  from r1 r2 r3 r4 r5 r6 show ?thesis by blast
qed

section \<open>The diagnostic scorer\<close>


lemma rtt_stats_ok: "\<exists>a m sd. rtt_stats fm = Inr (a, m, sd)"
  by (cases "fm_rtt_samples fm") (auto simp: rtt_stats_def np_max_def MIN_RTT_SAMPLES_def)


lemma raw_scores_eq:
  "fm_retrans fm = 0 \<or> fm_count fm > 0 \<Longrightarrow>
   raw_scores fm w sd =
     Inr ((if w < 500 \<and> fm_count fm > 10 then 0.2 else 0),
          (if fm_retrans fm > 0 then real (fm_retrans fm) / real (fm_count fm) * 10 else 0)
            + (if fm_rto_cnt fm > 0 then real (fm_rto_cnt fm) * 0.5 else 0)
            + (if sd > RTT_JITTER_THRESH then 1 else 0),
          (if w < 500 \<and> fm_count fm > 10 then 0.6 else 0)
            + (if fm_retrans fm > 0 then real (fm_retrans fm) / real (fm_count fm) * 2 else 0))"
  by (auto simp: raw_scores_def Let_def)

lemma raw_scores_ok:
  "fm_retrans fm = 0 \<or> fm_count fm > 0 \<Longrightarrow> \<exists>sc sn ss. raw_scores fm w sd = Inr (sc, sn, ss)"
  using raw_scores_eq by blast

lemma calculate_probabilities_cases:
  assumes "rtt_stats fm = Inr (a, m, sd)"
    and "raw_scores fm (if fm_wins fm \<noteq> [] then np_mean (map real (fm_wins fm)) else 0) sd
         = Inr (sc, sn, ss)"
  shows "calculate_probabilities fm =
     Inr (if sc + sn + ss < 0.001
          then \<lparr> p_c = 0.33, p_n = 0.33, p_s = 0.34, r_rtt_avg = a, r_rtt_max = m, r_rtt_std = sd,
                 r_avg_win = (if fm_wins fm \<noteq> [] then np_mean (map real (fm_wins fm)) else 0) \<rparr>
          else \<lparr> p_c = sc / (sc + sn + ss), p_n = sn / (sc + sn + ss), p_s = ss / (sc + sn + ss),
                 r_rtt_avg = a, r_rtt_max = m, r_rtt_std = sd,
                 r_avg_win = (if fm_wins fm \<noteq> [] then np_mean (map real (fm_wins fm)) else 0) \<rparr>)"
  using assms by (simp add: calculate_probabilities_def Let_def)

lemma normalised_sum:
  fixes sc sn ss :: real
  assumes "\<not> sc + sn + ss < 0.001"
  shows "sc / (sc + sn + ss) + sn / (sc + sn + ss) + ss / (sc + sn + ss) = 1"
proof -
  have "sc + sn + ss \<noteq> 0" using assms by auto
  then show ?thesis by (simp add: add_divide_distrib[symmetric])
qed

lemma calculate_probabilities_sum:
  assumes "fm_retrans fm = 0 \<or> fm_count fm > 0"
  shows "\<exists>r sc sn ss. calculate_probabilities fm = Inr r
           \<and> raw_scores fm (r_avg_win r) (r_rtt_std r) = Inr (sc, sn, ss)
           \<and> (p_c r, p_n r, p_s r) =
                (if sc + sn + ss < 0.001 then (0.33, 0.33, 0.34)
                 else (sc / (sc + sn + ss), sn / (sc + sn + ss), ss / (sc + sn + ss)))
           \<and> p_c r + p_n r + p_s r = 1"
proof -
  obtain a m sd where 1: "rtt_stats fm = Inr (a, m, sd)" using rtt_stats_ok by blast
  define w where "w = (if fm_wins fm \<noteq> [] then np_mean (map real (fm_wins fm)) else 0)"
  obtain sc sn ss where 2: "raw_scores fm w sd = Inr (sc, sn, ss)"
    using raw_scores_ok[OF assms] by blast
  define r where "r = (if sc + sn + ss < 0.001
          then \<lparr> p_c = 0.33, p_n = 0.33, p_s = 0.34, r_rtt_avg = a, r_rtt_max = m, r_rtt_std = sd,
                 r_avg_win = w \<rparr>
          else \<lparr> p_c = sc / (sc + sn + ss), p_n = sn / (sc + sn + ss), p_s = ss / (sc + sn + ss),
                 r_rtt_avg = a, r_rtt_max = m, r_rtt_std = sd, r_avg_win = w \<rparr>)"
  have c: "calculate_probabilities fm = Inr r"
    unfolding r_def w_def
    by (rule calculate_probabilities_cases[OF 1 2[unfolded w_def]])
  have f: "r_avg_win r = w" "r_rtt_std r = sd" by (simp_all add: r_def)
  have t: "(p_c r, p_n r, p_s r) =
                (if sc + sn + ss < 0.001 then (0.33, 0.33, 0.34)
                 else (sc / (sc + sn + ss), sn / (sc + sn + ss), ss / (sc + sn + ss)))"
    by (simp add: r_def)
  have s: "p_c r + p_n r + p_s r = 1"
  proof (cases "sc + sn + ss < 0.001")
    case True then show ?thesis by (simp add: r_def)
  next
    case False
    from normalised_sum[OF False] False show ?thesis by (simp add: r_def)
  qed
  from c 2 f t s show ?thesis by auto
qed


lemma np_max_nonempty: "xs \<noteq> [] \<Longrightarrow> \<exists>m. np_max xs = Inr m"
  by (cases xs) (auto simp: np_max_def)

lemma compute_flow_metrics_eq:
  "\<exists>rtt_max. compute_flow_metrics stats =
     Inr (let avg_win = (if ss_wins stats \<noteq> [] then np_mean (map real (ss_wins stats)) else 0);
              rtt_list = map (\<lambda>(t, ack_ts). ack_ts - t) (ss_seq_ack_time stats);
              rtt_jitter = (if rtt_list \<noteq> [] then np_std rtt_list else 0);
              cns = raw_probs stats avg_win rtt_jitter;
              total = fst cns + fst (snd cns) + snd (snd cns)
          in \<lparr> m_avg_win = avg_win,
               m_rtt_avg = (if rtt_list \<noteq> [] then np_mean rtt_list else 0),
               m_rtt_max = (if rtt_list \<noteq> [] then rtt_max else 0),
               m_rtt_jitter = rtt_jitter,
               m_client = (if total > 0 then fst cns / total else 1 / 3),
               m_network = (if total > 0 then fst (snd cns) / total else 1 / 3),
               m_server = (if total > 0 then snd (snd cns) / total else 1 / 3) \<rparr>)"
proof (cases "ss_seq_ack_time stats = []")
  case True
  then show ?thesis
    by (simp add: compute_flow_metrics_def Let_def split: prod.splits)
next
  case False
  then obtain m where "np_max (map (\<lambda>(t, ack_ts). ack_ts - t) (ss_seq_ack_time stats)) = Inr m"
    using np_max_nonempty[of "map (\<lambda>(t, ack_ts). ack_ts - t) (ss_seq_ack_time stats)"] by auto
  with False show ?thesis
    by (intro exI[of _ m]) (simp add: compute_flow_metrics_def Let_def split: prod.splits)
qed

lemma compute_flow_metrics_sum:
  "\<exists>m. compute_flow_metrics stats = Inr m \<and> m_client m + m_network m + m_server m = 1"
proof -
  obtain mx where e: "compute_flow_metrics stats =
     Inr (let avg_win = (if ss_wins stats \<noteq> [] then np_mean (map real (ss_wins stats)) else 0);
              rtt_list = map (\<lambda>(t, ack_ts). ack_ts - t) (ss_seq_ack_time stats);
              rtt_jitter = (if rtt_list \<noteq> [] then np_std rtt_list else 0);
              cns = raw_probs stats avg_win rtt_jitter;
              total = fst cns + fst (snd cns) + snd (snd cns)
          in \<lparr> m_avg_win = avg_win,
               m_rtt_avg = (if rtt_list \<noteq> [] then np_mean rtt_list else 0),
               m_rtt_max = (if rtt_list \<noteq> [] then mx else 0),
               m_rtt_jitter = rtt_jitter,
               m_client = (if total > 0 then fst cns / total else 1 / 3),
               m_network = (if total > 0 then fst (snd cns) / total else 1 / 3),
               m_server = (if total > 0 then snd (snd cns) / total else 1 / 3) \<rparr>)"
    using compute_flow_metrics_eq by blast
  have n: "\<And>c n s :: real. c + n + s > 0 \<Longrightarrow> c / (c + n + s) + n / (c + n + s) + s / (c + n + s) = 1"
    by (simp add: add_divide_distrib[symmetric])
  show ?thesis
    unfolding e by (auto simp: Let_def n)
qed


subsection \<open>Retransmissions never outnumber the segments of a flow\<close>

lemma count_packet_fields [simp]:
  "fm_retrans (count_packet fm p) = fm_retrans fm"
  "fm_count (count_packet fm p) = fm_count fm + 1"
  by (simp_all add: count_packet_def)


lemma small_win_fields [simp]:
  "fm_count (small_win fm p) = fm_count fm"
  "fm_retrans (small_win fm p) = fm_retrans fm"
  by (simp_all add: small_win_def)


lemma rtt_expect_flows [simp]: "flows (rtt_expect st p) = flows st"
  by (simp add: rtt_expect_def Let_def)






subsection \<open>What the scorers return\<close>


lemma compute_flow_metrics_result:
  "\<exists>m c n s. compute_flow_metrics stats = Inr m
      \<and> raw_probs stats (m_avg_win m) (m_rtt_jitter m) = (c, n, s)
      \<and> (m_client m, m_network m, m_server m) =
          (if c + n + s > 0 then (c / (c + n + s), n / (c + n + s), s / (c + n + s))
           else (1 / 3, 1 / 3, 1 / 3))
      \<and> m_client m + m_network m + m_server m = 1
      \<and> (ss_seq_ack_time stats = [] \<longrightarrow> m_rtt_avg m = 0 \<and> m_rtt_max m = 0 \<and> m_rtt_jitter m = 0)
      \<and> (ss_wins stats = [] \<longrightarrow> m_avg_win m = 0)"
proof -
  define avg_win where "avg_win = (if ss_wins stats \<noteq> [] then np_mean (map real (ss_wins stats)) else 0)"
  define rtt_list where "rtt_list = map (\<lambda>(t, ack_ts). ack_ts - t) (ss_seq_ack_time stats)"
  define rtt_jitter where "rtt_jitter = (if rtt_list \<noteq> [] then np_std rtt_list else 0)"
  obtain c n s where cns: "raw_probs stats avg_win rtt_jitter = (c, n, s)"
    by (cases "raw_probs stats avg_win rtt_jitter") auto
  obtain mx where e: "compute_flow_metrics stats =
     Inr (let avg_win = (if ss_wins stats \<noteq> [] then np_mean (map real (ss_wins stats)) else 0);
              rtt_list = map (\<lambda>(t, ack_ts). ack_ts - t) (ss_seq_ack_time stats);
              rtt_jitter = (if rtt_list \<noteq> [] then np_std rtt_list else 0);
              cns = raw_probs stats avg_win rtt_jitter;
              total = fst cns + fst (snd cns) + snd (snd cns)
          in \<lparr> m_avg_win = avg_win,
               m_rtt_avg = (if rtt_list \<noteq> [] then np_mean rtt_list else 0),
               m_rtt_max = (if rtt_list \<noteq> [] then mx else 0),
               m_rtt_jitter = rtt_jitter,
               m_client = (if total > 0 then fst cns / total else 1 / 3),
               m_network = (if total > 0 then fst (snd cns) / total else 1 / 3),
               m_server = (if total > 0 then snd (snd cns) / total else 1 / 3) \<rparr>)"
    using compute_flow_metrics_eq by blast
  define m where "m = \<lparr> m_avg_win = avg_win,
               m_rtt_avg = (if rtt_list \<noteq> [] then np_mean rtt_list else 0),
               m_rtt_max = (if rtt_list \<noteq> [] then mx else 0),
               m_rtt_jitter = rtt_jitter,
               m_client = (if c + n + s > 0 then c / (c + n + s) else 1 / 3),
               m_network = (if c + n + s > 0 then n / (c + n + s) else 1 / 3),
               m_server = (if c + n + s > 0 then s / (c + n + s) else 1 / 3) \<rparr>"
  have em: "compute_flow_metrics stats = Inr m"
    unfolding e Let_def m_def
    by (simp only: avg_win_def[symmetric] rtt_list_def[symmetric] rtt_jitter_def[symmetric] cns
          fst_conv snd_conv)
  have nrm: "c / (c + n + s) + n / (c + n + s) + s / (c + n + s) = 1" if "c + n + s > 0"
    using that by (simp add: add_divide_distrib[symmetric])
  have sm: "m_client m + m_network m + m_server m = 1"
    using nrm by (simp add: m_def)
  have deg: "ss_seq_ack_time stats = [] \<longrightarrow> m_rtt_avg m = 0 \<and> m_rtt_max m = 0 \<and> m_rtt_jitter m = 0"
    by (simp add: m_def rtt_list_def rtt_jitter_def)
  have dw: "ss_wins stats = [] \<longrightarrow> m_avg_win m = 0"
    by (simp add: m_def avg_win_def)
  have rp: "raw_probs stats (m_avg_win m) (m_rtt_jitter m) = (c, n, s)"
    using cns by (simp add: m_def)
  have tr: "(m_client m, m_network m, m_server m) =
          (if c + n + s > 0 then (c / (c + n + s), n / (c + n + s), s / (c + n + s))
           else (1 / 3, 1 / 3, 1 / 3))"
    by (simp add: m_def)
  from em rp tr sm deg dw show ?thesis by blast
qed


subsection \<open>Normalisation\<close>

text \<open>
  Claim C1, as stated: without a signal all three components are 1/3. A flow of one data
  segment with window 500 has no signal; \<open>calculate_probabilities\<close> of
  analyze\_and\_generate\_report.py returns 0.33, 0.33 and 0.34 for it.
\<close>

theorem default_triple_is_not_one_third:
  "fm_count (dd_get (flows (analyze_pcap [mk_packet 1.0 ''A'' 1000 ''B'' 80 100 1 24 500 50]))
      new_FlowMetrics (''A'', 1000, ''B'', 80)) = 1
   \<and> calculate_probabilities
       (dd_get (flows (analyze_pcap [mk_packet 1.0 ''A'' 1000 ''B'' 80 100 1 24 500 50]))
          new_FlowMetrics (''A'', 1000, ''B'', 80))
     = Inr \<lparr> p_c = 0.33, p_n = 0.33, p_s = 0.34, r_rtt_avg = 0, r_rtt_max = 0, r_rtt_std = 0,
             r_avg_win = 500 \<rparr>
   \<and> (0.33 :: real) \<noteq> 1 / 3 \<and> (0.34 :: real) \<noteq> 1 / 3"
  by (simp add: rep_eval calculate_probabilities_def rtt_stats_def raw_scores_def np_mean_def
        np_std_def np_max_def MIN_RTT_SAMPLES_def RTT_JITTER_THRESH_def)

text \<open>
  Claim C1, amended. For every flow with at least one segment \<open>calculate_probabilities\<close>
  returns a triple that sums to 1: the three scores divided by their total when the total
  is at least 0.001, and (0.33, 0.33, 0.34) otherwise. \<open>compute_flow_metrics\<close> of
  tcp\_professional\_report.py returns, for every stream, the three sums divided by their
  total when the total is positive and (1/3, 1/3, 1/3) otherwise, which sums to 1 as well.
  The scores are reals here, so the sums are exactly 1.
\<close>

theorem diagnosis_sums_to_one:
  "(fm_count fm \<ge> 1 \<longrightarrow>
      (\<exists>r sc sn ss. calculate_probabilities fm = Inr r
           \<and> raw_scores fm (r_avg_win r) (r_rtt_std r) = Inr (sc, sn, ss)
           \<and> (p_c r, p_n r, p_s r) =
                (if sc + sn + ss < 0.001 then (0.33, 0.33, 0.34)
                 else (sc / (sc + sn + ss), sn / (sc + sn + ss), ss / (sc + sn + ss)))
           \<and> p_c r + p_n r + p_s r = 1))
   \<and> (\<exists>m c n s. compute_flow_metrics stats = Inr m
      \<and> raw_probs stats (m_avg_win m) (m_rtt_jitter m) = (c, n, s)
      \<and> (m_client m, m_network m, m_server m) =
          (if c + n + s > 0 then (c / (c + n + s), n / (c + n + s), s / (c + n + s))
           else (1 / 3, 1 / 3, 1 / 3))
      \<and> m_client m + m_network m + m_server m = 1)"
proof (intro conjI impI)
  assume "fm_count fm \<ge> 1"
  then have "fm_retrans fm = 0 \<or> fm_count fm > 0" by simp
  then show "\<exists>r sc sn ss. calculate_probabilities fm = Inr r
           \<and> raw_scores fm (r_avg_win r) (r_rtt_std r) = Inr (sc, sn, ss)
           \<and> (p_c r, p_n r, p_s r) =
                (if sc + sn + ss < 0.001 then (0.33, 0.33, 0.34)
                 else (sc / (sc + sn + ss), sn / (sc + sn + ss), ss / (sc + sn + ss)))
           \<and> p_c r + p_n r + p_s r = 1"
    by (rule calculate_probabilities_sum)
next
  show "\<exists>m c n s. compute_flow_metrics stats = Inr m
      \<and> raw_probs stats (m_avg_win m) (m_rtt_jitter m) = (c, n, s)
      \<and> (m_client m, m_network m, m_server m) =
          (if c + n + s > 0 then (c / (c + n + s), n / (c + n + s), s / (c + n + s))
           else (1 / 3, 1 / 3, 1 / 3))
      \<and> m_client m + m_network m + m_server m = 1"
    using compute_flow_metrics_result[of stats] by blast
qed

text \<open>A flow of four segments, one of them a retransmission.\<close>

theorem diagnosis_sums_to_one_witness:
  "fm_count (new_FlowMetrics\<lparr> fm_count := 4, fm_retrans := 1, fm_wins := [500, 500, 500, 500] \<rparr>) \<ge> 1
   \<and> (\<exists>r. calculate_probabilities
             (new_FlowMetrics\<lparr> fm_count := 4, fm_retrans := 1, fm_wins := [500, 500, 500, 500] \<rparr>)
           = Inr r \<and> p_c r + p_n r + p_s r = 1)"
proof -
  let ?fm = "new_FlowMetrics\<lparr> fm_count := 4, fm_retrans := 1, fm_wins := [500, 500, 500, 500] \<rparr>"
  have h: "fm_count ?fm \<ge> 1" by simp
  from diagnosis_sums_to_one[of ?fm] h
  have "\<exists>r. calculate_probabilities ?fm = Inr r \<and> p_c r + p_n r + p_s r = 1" by blast
  with h show ?thesis by blast
qed

subsection \<open>Degenerate flows\<close>








section \<open>The per-IP aggregation\<close>

lemma map_of_dd_update:
  "map_of (dd_update k d f l) = (map_of l)(k \<mapsto> f (case map_of l k of None \<Rightarrow> d | Some v \<Rightarrow> v))"
  by (induction l) (auto simp: fun_eq_iff)

lemma ip_stats_of_snoc: "ip_stats_of (rows @ [r]) = ip_stats_add (ip_stats_of rows) r"
  by (simp add: ip_stats_of_def)

lemma sum_stat_snoc:
  "sum_stat (rs @ [r]) =
     \<lparr> st_c = st_c (sum_stat rs) + row_p_client r, st_n = st_n (sum_stat rs) + row_p_network r,
       st_s = st_s (sum_stat rs) + row_p_server r, st_count = st_count (sum_stat rs) + 1 \<rparr>"
  by (simp add: sum_stat_def)

lemma ip_stats_of_closed:
  "map_of (ip_stats_of rows) ip =
     (if rows_of_ip ip rows = [] then None else Some (sum_stat (rows_of_ip ip rows)))"
proof (induction rows rule: rev_induct)
  case Nil
  show ?case by (simp add: ip_stats_of_def rows_of_ip_def)
next
  case (snoc r rows)
  show ?case
  proof (cases "row_src_ip r = ip")
    case False
    then show ?thesis
      using snoc by (simp add: ip_stats_of_snoc ip_stats_add_def map_of_dd_update rows_of_ip_def)
  next
    case True
    have f: "rows_of_ip ip (rows @ [r]) = rows_of_ip ip rows @ [r]"
      using True by (simp add: rows_of_ip_def)
    show ?thesis
    proof (cases "rows_of_ip ip rows = []")
      case True
      with snoc \<open>row_src_ip r = ip\<close> show ?thesis
        unfolding f by (simp add: ip_stats_of_snoc ip_stats_add_def map_of_dd_update sum_stat_def)
    next
      case False
      with snoc \<open>row_src_ip r = ip\<close> show ?thesis
        unfolding f sum_stat_snoc
        by (simp add: ip_stats_of_snoc ip_stats_add_def map_of_dd_update)
    qed
  qed
qed

lemma ip_src_dst_stats_snoc:
  "ip_src_dst_stats (frs @ [kv]) = ip_loop_step (ip_src_dst_stats frs) kv"
  by (simp add: ip_src_dst_stats_def)

lemma sum_prob_snoc: "sum_prob (vs @ [v]) = add_prob v (sum_prob vs)"
  by (cases v) (simp add: sum_prob_def add_prob_def)

lemma add_prob_zero: "add_prob v (0, 0, 0) = sum_prob [v]"
  by (cases v) (simp add: sum_prob_def add_prob_def)

lemma fst_ip_loop_step:
  "map_of (fst (ip_loop_step st kv)) =
     (map_of (fst st))(fst (fst kv) \<mapsto>
        add_prob (snd kv) (case map_of (fst st) (fst (fst kv)) of None \<Rightarrow> (0, 0, 0) | Some e \<Rightarrow> e))"
  by (cases st; cases kv) (auto simp: ip_loop_step_def map_of_dd_update)

lemma snd_ip_loop_step:
  "map_of (snd (ip_loop_step st kv)) =
     (map_of (snd st))(fst (snd (snd (fst kv))) \<mapsto>
        add_prob (snd kv) (case map_of (snd st) (fst (snd (snd (fst kv)))) of
                             None \<Rightarrow> (0, 0, 0) | Some e \<Rightarrow> e))"
  by (cases st; cases kv) (auto simp: ip_loop_step_def map_of_dd_update)

lemma ip_src_stats_closed:
  "map_of (fst (ip_src_dst_stats frs)) ip =
     (if results_from ip frs = [] then None else Some (sum_prob (results_from ip frs)))"
proof (induction frs rule: rev_induct)
  case Nil
  show ?case by (simp add: ip_src_dst_stats_def results_from_def)
next
  case (snoc kv frs)
  show ?case
  proof (cases "fst (fst kv) = ip")
    case False
    then show ?thesis
      using snoc by (simp add: ip_src_dst_stats_snoc fst_ip_loop_step results_from_def)
  next
    case True
    have f: "results_from ip (frs @ [kv]) = results_from ip frs @ [snd kv]"
      using True by (simp add: results_from_def)
    show ?thesis
      using snoc True unfolding f sum_prob_snoc
      by (simp add: ip_src_dst_stats_snoc fst_ip_loop_step add_prob_zero sum_prob_snoc[of "[]", simplified]
            split: if_splits)
  qed
qed

lemma ip_dst_stats_closed:
  "map_of (snd (ip_src_dst_stats frs)) ip =
     (if results_to ip frs = [] then None else Some (sum_prob (results_to ip frs)))"
proof (induction frs rule: rev_induct)
  case Nil
  show ?case by (simp add: ip_src_dst_stats_def results_to_def)
next
  case (snoc kv frs)
  show ?case
  proof (cases "fst (snd (snd (fst kv))) = ip")
    case False
    then show ?thesis
      using snoc by (simp add: ip_src_dst_stats_snoc snd_ip_loop_step results_to_def)
  next
    case True
    have f: "results_to ip (frs @ [kv]) = results_to ip frs @ [snd kv]"
      using True by (simp add: results_to_def)
    show ?thesis
      using snoc True unfolding f sum_prob_snoc
      by (simp add: ip_src_dst_stats_snoc snd_ip_loop_step add_prob_zero sum_prob_snoc[of "[]", simplified]
            split: if_splits)
  qed
qed


lemma env_ip_stats_aggregate_env: "env_ip_stats (aggregate_env env rows) = ip_stats_of rows"
  by (simp add: aggregate_env_def fill_ip_stats_def reset_ip_stats_def ip_stats_of_def)

lemma aggregate_env_again: "aggregate_env (aggregate_env env rows) rows = aggregate_env env rows"
  by (simp add: aggregate_env_def fill_ip_stats_def reset_ip_stats_def)

lemma ip_bars_aggregate_env: "ip_bars (aggregate_env env rows) = ip_aggregate rows"
  by (simp add: ip_bars_def ip_aggregate_def env_ip_stats_aggregate_env)

lemma trend_run_stats:
  "(te_ip_src_stats (trend_run env frs), te_ip_dst_stats (trend_run env frs)) = ip_src_dst_stats frs"
  by (simp add: trend_run_def trend_loop_def init_trend_stats_def ip_src_dst_stats_def Let_def)

lemma trend_run_again: "trend_run (trend_run env frs) frs = trend_run env frs"
  by (simp add: trend_run_def trend_loop_def init_trend_stats_def Let_def)

text \<open>
  Claim C9. A run of the per-IP aggregation of \<open>generate_plot\<close> starts by binding
  \<open>ip_stats\<close> to a fresh dictionary, so whatever an earlier run left in the variable has
  no effect: the aggregate after a run is the same from every prior state, and a second
  run over the same rows, started in the state the first run left, ends in the same state
  and draws the same per-IP averages. The entry of an address is exactly the component
  sums and the number of the rows with that source address. The same holds for the two
  dictionaries of analyze\_tcp\_dpkt\_full\_trend.py, bound afresh at lines 94 and 95 before
  the loop fills them: a second run ends in the same state, and the entry of an address is
  the sum of the probabilities of the flows from (or to) it.
\<close>

theorem aggregation_idempotent:
  "aggregate_env (aggregate_env env rows) rows = aggregate_env env rows
   \<and> ip_bars (aggregate_env (aggregate_env env rows) rows) = ip_bars (aggregate_env env rows)
   \<and> env_ip_stats (aggregate_env env rows) = env_ip_stats (aggregate_env env' rows)
   \<and> map_of (env_ip_stats (aggregate_env env rows)) ip =
       (if rows_of_ip ip rows = [] then None else Some (sum_stat (rows_of_ip ip rows)))
   \<and> trend_run (trend_run tenv frs) frs = trend_run tenv frs
   \<and> map_of (te_ip_src_stats (trend_run tenv frs)) ip =
       (if results_from ip frs = [] then None else Some (sum_prob (results_from ip frs)))
   \<and> map_of (te_ip_dst_stats (trend_run tenv frs)) ip =
       (if results_to ip frs = [] then None else Some (sum_prob (results_to ip frs)))"
proof (intro conjI)
  show "aggregate_env (aggregate_env env rows) rows = aggregate_env env rows"
    by (rule aggregate_env_again)
  then show "ip_bars (aggregate_env (aggregate_env env rows) rows) = ip_bars (aggregate_env env rows)"
    by simp
  show "env_ip_stats (aggregate_env env rows) = env_ip_stats (aggregate_env env' rows)"
    by (simp only: env_ip_stats_aggregate_env)
  show "map_of (env_ip_stats (aggregate_env env rows)) ip =
       (if rows_of_ip ip rows = [] then None else Some (sum_stat (rows_of_ip ip rows)))"
    by (simp only: env_ip_stats_aggregate_env ip_stats_of_closed)
  show "trend_run (trend_run tenv frs) frs = trend_run tenv frs"
    by (rule trend_run_again)
  have s: "te_ip_src_stats (trend_run tenv frs) = fst (ip_src_dst_stats frs)"
    and d: "te_ip_dst_stats (trend_run tenv frs) = snd (ip_src_dst_stats frs)"
    using trend_run_stats[of tenv frs] by (simp_all add: prod_eq_iff)
  show "map_of (te_ip_src_stats (trend_run tenv frs)) ip =
       (if results_from ip frs = [] then None else Some (sum_prob (results_from ip frs)))"
    by (simp only: s ip_src_stats_closed)
  show "map_of (te_ip_dst_stats (trend_run tenv frs)) ip =
       (if results_to ip frs = [] then None else Some (sum_prob (results_to ip frs)))"
    by (simp only: d ip_dst_stats_closed)
qed

text \<open>
  Two flows from the address A and one from B, aggregated twice, the first time with
  something else still in the variable. The second run starts from the result of the
  first and ends with the same entries and the same averages; the loop alone, run again
  without the fresh dictionary, would count every flow twice.
\<close>

theorem aggregation_idempotent_witness:
  "aggregate_env (aggregate_env
        \<lparr> env_ip_stats = [(''Z'', \<lparr> st_c = 1, st_n = 1, st_s = 1, st_count = 7 \<rparr>)] \<rparr>
      [\<lparr> row_src_ip = ''A'', row_dst_ip = ''B'', row_p_client = 0, row_p_network = 5 / 6,
         row_p_server = 1 / 6, row_score = 5 \<rparr>,
       \<lparr> row_src_ip = ''B'', row_dst_ip = ''A'', row_p_client = 0.33, row_p_network = 0.33,
         row_p_server = 0.34, row_score = 0 \<rparr>,
       \<lparr> row_src_ip = ''A'', row_dst_ip = ''C'', row_p_client = 0.33, row_p_network = 0.33,
         row_p_server = 0.34, row_score = 0 \<rparr>])
      [\<lparr> row_src_ip = ''A'', row_dst_ip = ''B'', row_p_client = 0, row_p_network = 5 / 6,
         row_p_server = 1 / 6, row_score = 5 \<rparr>,
       \<lparr> row_src_ip = ''B'', row_dst_ip = ''A'', row_p_client = 0.33, row_p_network = 0.33,
         row_p_server = 0.34, row_score = 0 \<rparr>,
       \<lparr> row_src_ip = ''A'', row_dst_ip = ''C'', row_p_client = 0.33, row_p_network = 0.33,
         row_p_server = 0.34, row_score = 0 \<rparr>]
     = \<lparr> env_ip_stats =
           [(''A'', \<lparr> st_c = 0.33, st_n = 5 / 6 + 0.33, st_s = 1 / 6 + 0.34, st_count = 2 \<rparr>),
            (''B'', \<lparr> st_c = 0.33, st_n = 0.33, st_s = 0.34, st_count = 1 \<rparr>)] \<rparr>
   \<and> ip_bars (aggregate_env (aggregate_env
        \<lparr> env_ip_stats = [(''Z'', \<lparr> st_c = 1, st_n = 1, st_s = 1, st_count = 7 \<rparr>)] \<rparr>
      [\<lparr> row_src_ip = ''A'', row_dst_ip = ''B'', row_p_client = 0, row_p_network = 5 / 6,
         row_p_server = 1 / 6, row_score = 5 \<rparr>,
       \<lparr> row_src_ip = ''B'', row_dst_ip = ''A'', row_p_client = 0.33, row_p_network = 0.33,
         row_p_server = 0.34, row_score = 0 \<rparr>,
       \<lparr> row_src_ip = ''A'', row_dst_ip = ''C'', row_p_client = 0.33, row_p_network = 0.33,
         row_p_server = 0.34, row_score = 0 \<rparr>])
      [\<lparr> row_src_ip = ''A'', row_dst_ip = ''B'', row_p_client = 0, row_p_network = 5 / 6,
         row_p_server = 1 / 6, row_score = 5 \<rparr>,
       \<lparr> row_src_ip = ''B'', row_dst_ip = ''A'', row_p_client = 0.33, row_p_network = 0.33,
         row_p_server = 0.34, row_score = 0 \<rparr>,
       \<lparr> row_src_ip = ''A'', row_dst_ip = ''C'', row_p_client = 0.33, row_p_network = 0.33,
         row_p_server = 0.34, row_score = 0 \<rparr>])
     = [(''A'', 0.33 / 2, (5 / 6 + 0.33) / 2, (1 / 6 + 0.34) / 2), (''B'', 0.33, 0.33, 0.34)]
   \<and> st_count (snd (hd (env_ip_stats (fill_ip_stats (aggregate_env
        \<lparr> env_ip_stats = [(''Z'', \<lparr> st_c = 1, st_n = 1, st_s = 1, st_count = 7 \<rparr>)] \<rparr>
      [\<lparr> row_src_ip = ''A'', row_dst_ip = ''B'', row_p_client = 0, row_p_network = 5 / 6,
         row_p_server = 1 / 6, row_score = 5 \<rparr>,
       \<lparr> row_src_ip = ''B'', row_dst_ip = ''A'', row_p_client = 0.33, row_p_network = 0.33,
         row_p_server = 0.34, row_score = 0 \<rparr>,
       \<lparr> row_src_ip = ''A'', row_dst_ip = ''C'', row_p_client = 0.33, row_p_network = 0.33,
         row_p_server = 0.34, row_score = 0 \<rparr>])
      [\<lparr> row_src_ip = ''A'', row_dst_ip = ''B'', row_p_client = 0, row_p_network = 5 / 6,
         row_p_server = 1 / 6, row_score = 5 \<rparr>,
       \<lparr> row_src_ip = ''B'', row_dst_ip = ''A'', row_p_client = 0.33, row_p_network = 0.33,
         row_p_server = 0.34, row_score = 0 \<rparr>,
       \<lparr> row_src_ip = ''A'', row_dst_ip = ''C'', row_p_client = 0.33, row_p_network = 0.33,
         row_p_server = 0.34, row_score = 0 \<rparr>])))) = 4"
proof -
  let ?env = "\<lparr> env_ip_stats = [(''Z'', \<lparr> st_c = 1, st_n = 1, st_s = 1, st_count = 7 \<rparr>)] \<rparr>"
  let ?rows = "[\<lparr> row_src_ip = ''A'', row_dst_ip = ''B'', row_p_client = 0, row_p_network = 5 / 6,
         row_p_server = 1 / 6, row_score = 5 \<rparr>,
       \<lparr> row_src_ip = ''B'', row_dst_ip = ''A'', row_p_client = 0.33, row_p_network = 0.33,
         row_p_server = 0.34, row_score = 0 \<rparr>,
       \<lparr> row_src_ip = ''A'', row_dst_ip = ''C'', row_p_client = 0.33, row_p_network = 0.33,
         row_p_server = 0.34, row_score = (0 :: real) \<rparr>]"
  have one: "aggregate_env ?env ?rows = \<lparr> env_ip_stats =
           [(''A'', \<lparr> st_c = 0.33, st_n = 5 / 6 + 0.33, st_s = 1 / 6 + 0.34, st_count = 2 \<rparr>),
            (''B'', \<lparr> st_c = 0.33, st_n = 0.33, st_s = 0.34, st_count = 1 \<rparr>)] \<rparr>"
    by (simp add: aggregate_env_def fill_ip_stats_def reset_ip_stats_def ip_stats_add_def)
  from aggregation_idempotent[of ?env ?rows]
  have two: "aggregate_env (aggregate_env ?env ?rows) ?rows = aggregate_env ?env ?rows"
    and bars: "ip_bars (aggregate_env (aggregate_env ?env ?rows) ?rows) = ip_bars (aggregate_env ?env ?rows)"
    by blast+
  have b1: "ip_bars (aggregate_env ?env ?rows)
     = [(''A'', 0.33 / 2, (5 / 6 + 0.33) / 2, (1 / 6 + 0.34) / 2), (''B'', 0.33, 0.33, 0.34)]"
    unfolding one by (simp add: ip_bars_def sorted_ips_def)
  have acc: "st_count (snd (hd (env_ip_stats (fill_ip_stats (aggregate_env ?env ?rows) ?rows)))) = 4"
    unfolding one by (simp add: fill_ip_stats_def ip_stats_add_def)
  from one two bars b1 acc show ?thesis by (simp only: simp_thms)
qed

end
